theory Spec2Isabelle
  imports Complex_Main "HOL-Library.AList" "HOL-Library.Multiset"
begin

section \<open>Errors and promises\<close>

text \<open>
  A JavaScript \<^verbatim>\<open>Error\<close> as the code reads it: its \<^verbatim>\<open>type\<close> property
  (absent on errors the engine raises itself) and its message.
\<close>

datatype error = Error (etype: "string option") (message: string)

definition stream_error :: "string \<Rightarrow> error" where
  "stream_error msg = Error (Some ''stream'') msg"

definition TypeError :: error where
  "TypeError = Error None ''TypeError''"

text \<open>The state a returned promise settles to; \<open>Pending\<close> when that is decided later.\<close>

datatype 'a promise = Resolved 'a | Rejected error | Pending

text \<open>
  What ends a call without a state of the model: an exception, or the storing of a value
  that is no stream set among the stream sets of \<^verbatim>\<open>streamSetsByType\<close>. After such a
  store the call goes on, over a state that the model, whose lists hold stream sets only,
  cannot hold; the model does not follow it, and says neither that the call returns nor
  that it throws.
\<close>

datatype failure = Threw error | Not_a_stream_set

section \<open>Numbers\<close>

text \<open>
  Times and sizes are JavaScript numbers, taken here as reals; their sums, differences
  and products are taken as exact. The quotient of two numbers is rounded as the division
  of doubles rounds it (see \<open>js_div\<close> below), since the count of segments is the
  ceiling of a quotient. A nullable number is an option; \<open>truthy\<close> is the test
  \<^verbatim>\<open>if (x)\<close> and \<open>js_num\<close> the coercion that a comparison or a division applies to
  \<^verbatim>\<open>null\<close>.
\<close>

definition truthy :: "real option \<Rightarrow> bool" where
  "truthy x = (case x of None \<Rightarrow> False | Some v \<Rightarrow> v \<noteq> 0)"

definition js_num :: "real option \<Rightarrow> real" where
  "js_num x = (case x of None \<Rightarrow> 0 | Some v \<Rightarrow> v)"

section \<open>Segment references and indexes\<close>

record segment_reference =
  startTime :: real
  endTime :: "real option"

type_synonym segment_index = "segment_reference list"

section \<open>The manifest\<close>

text \<open>
  An \<^verbatim>\<open>ISegmentIndexSource\<close> is seen by the video source only through
  \<^verbatim>\<open>create()\<close>: the field holds what that promise settles to.
\<close>

record stream_info =
  uniqueId :: nat
  bandwidth :: "real option"
  width :: "real option"
  height :: "real option"
  enabled :: bool
  segmentIndexSource :: "error + segment_index"

record stream_set_info =
  set_uniqueId :: nat
  contentType :: string
  lang :: string
  main :: bool
  streamInfos :: "stream_info list"

record period_info =
  duration :: "real option"
  streamSetInfos :: "stream_set_info list"

record manifest_info =
  live :: bool
  minBufferTime :: real
  updatePeriod :: "real option"
  periodInfos :: "period_info list"

section \<open>StreamVideoSource\<close>

record restrictions =
  maxWidth :: "real option"
  maxHeight :: "real option"
  maxBandwidth :: "real option"
  minBandwidth :: "real option"

text \<open>
  A stream object as the video source uses it: \<open>getStreamInfo\<close> is what
  \<^verbatim>\<open>getStreamInfo()\<close> answers, \<open>getEnabled\<close> what \<^verbatim>\<open>getEnabled()\<close> answers, and
  \<open>switched\<close> collects the calls of \<^verbatim>\<open>switch(streamInfo, immediate)\<close>.
\<close>

record stream =
  getStreamInfo :: "stream_info option"
  getEnabled :: bool
  switched :: "(stream_info \<times> bool) list"

record video_element =
  playbackRate :: real
  currentTime :: real

text \<open>
  The fields of \<^verbatim>\<open>shaka.player.StreamVideoSource\<close>; the trailing underscore of a
  private name is left out, and \<^verbatim>\<open>lang_\<close> is \<open>lang_pref\<close>. \<open>streamSetsByType\<close>
  is the MultiMap from a content type to its list of stream sets, \<open>streamsByType\<close> the
  object from a content type to its stream, both in insertion order. \<open>updateTimer\<close>
  holds the delay, in milliseconds, of the armed timeout. \<open>warnings\<close> collects the
  messages of \<^verbatim>\<open>shaka.log.warning\<close>, \<open>errorEvents\<close> the errors of the error events
  that \<^verbatim>\<open>dispatchEvent\<close> sent.
\<close>

record stream_video_source =
  manifestInfo :: "manifest_info option"
  streamSetsByType :: "(string \<times> stream_set_info list) list"
  loaded :: bool
  lang_pref :: string
  subsNeeded :: bool
  cachedRestrictions :: "restrictions option"
  streamsByType :: "(string \<times> stream) list"
  updateTimer :: "real option"
  video :: "video_element option"
  mediaSource_duration :: "real option"
  originalPlaybackRate :: real
  warnings :: "string list"
  errorEvents :: "error list"

text \<open>
  The constructor \<^verbatim>\<open>StreamVideoSource(manifestInfo, estimator, abrManager)\<close>: the
  fields as it initialises them.
\<close>

definition StreamVideoSource :: "manifest_info option \<Rightarrow> stream_video_source" where
  "StreamVideoSource m =
     \<lparr>manifestInfo = m, streamSetsByType = [], loaded = False, lang_pref = '''',
      subsNeeded = False, cachedRestrictions = None, streamsByType = [],
      updateTimer = None, video = None, mediaSource_duration = None,
      originalPlaybackRate = 1, warnings = [], errorEvents = []\<rparr>"

definition MIN_UPDATE_INTERVAL :: real where
  "MIN_UPDATE_INTERVAL = 3"

text \<open>
  \<^verbatim>\<open>setUpdateTimer_(offset)\<close>: nothing without an update period; else the timeout is
  set to \<^verbatim>\<open>1000 * Math.max(updatePeriod - offset, MIN_UPDATE_INTERVAL_)\<close>. Reading
  \<^verbatim>\<open>this.manifestInfo.updatePeriod\<close> of a null manifest throws.
\<close>

definition setUpdateTimer :: "real \<Rightarrow> stream_video_source \<Rightarrow> error + stream_video_source" where
  "setUpdateTimer offset s =
     (case manifestInfo s of
        None \<Rightarrow> Inl TypeError
      | Some m \<Rightarrow>
          (case updatePeriod m of
             None \<Rightarrow> Inr s
           | Some p \<Rightarrow>
               (let updateInterval = max (p - offset) MIN_UPDATE_INTERVAL
                in Inr (s\<lparr>updateTimer := Some (1000 * updateInterval)\<rparr>))))"

subsection \<open>Ordering stream sets by language\<close>

text \<open>
  \<^verbatim>\<open>streamSets.splice(i, 1); streamSets.splice(0, 0, set)\<close> with
  \<^verbatim>\<open>set = streamSets[i]\<close>: the element at \<open>i\<close> goes to the front. The loops call it
  only with \<open>i\<close> below the length.
\<close>

definition move_to_front :: "nat \<Rightarrow> 'a list \<Rightarrow> 'a list" where
  "move_to_front i xs = xs ! i # (take i xs @ drop (Suc i) xs)"

text \<open>The scan \<^verbatim>\<open>for (i = 0; i < streamSets.length; ++i)\<close> up to its first hit.\<close>

fun first_index :: "('a \<Rightarrow> bool) \<Rightarrow> 'a list \<Rightarrow> nat option" where
  "first_index P [] = None"
| "first_index P (x # xs) = (if P x then Some 0 else map_option Suc (first_index P xs))"

text \<open>
  The outer loop \<^verbatim>\<open>for (fuzz = MatchType.MIN; fuzz <= MatchType.MAX; ++fuzz)\<close> of
  \<^verbatim>\<open>sortByLanguage_\<close>. \<^verbatim>\<open>LanguageUtils.match\<close> and the two bounds are not part of
  the sources at hand and are parameters (\<open>lmatch\<close>, \<open>fuzz\<close> starting at the lower
  bound, \<open>hi\<close>). The result is \<open>Some\<close> of the reordered list when the loop returns
  from inside, \<open>None\<close> when it runs to its end.
\<close>

function fuzz_loop ::
  "(int \<Rightarrow> string \<Rightarrow> string \<Rightarrow> bool) \<Rightarrow> int \<Rightarrow> int \<Rightarrow> string
     \<Rightarrow> stream_set_info list \<Rightarrow> stream_set_info list option" where
  "fuzz_loop lmatch fuzz hi pref sets =
     (if fuzz \<le> hi then
        (case first_index (\<lambda>st. lmatch fuzz pref (lang st)) sets of
           Some i \<Rightarrow> Some (move_to_front i sets)
         | None \<Rightarrow> fuzz_loop lmatch (fuzz + 1) hi pref sets)
      else None)"
  by pat_completeness auto
termination
  by (relation "measure (\<lambda>(lmatch, fuzz, hi, pref, sets). nat (hi + 1 - fuzz))") auto

text \<open>
  \<^verbatim>\<open>sortByLanguage_(streamSets)\<close>, with \<^verbatim>\<open>this.lang_\<close> as \<open>pref\<close>: after the fuzz
  levels, the first set flagged \<^verbatim>\<open>main\<close> goes to the front, if there is one.
\<close>

definition sortByLanguage ::
  "(int \<Rightarrow> string \<Rightarrow> string \<Rightarrow> bool) \<Rightarrow> int \<Rightarrow> int \<Rightarrow> string
     \<Rightarrow> stream_set_info list \<Rightarrow> stream_set_info list" where
  "sortByLanguage lmatch lo hi pref sets =
     (case fuzz_loop lmatch lo hi pref sets of
        Some r \<Rightarrow> r
      | None \<Rightarrow>
          (case first_index main sets of
             Some i \<Rightarrow> move_to_front i sets
           | None \<Rightarrow> sets))"

text \<open>
  A matcher and stream sets to run the ordering on: level 0 accepts equal tags, level 1
  tags with the same first two letters.
\<close>

definition primary_match :: "int \<Rightarrow> string \<Rightarrow> string \<Rightarrow> bool" where
  "primary_match fuzz pref l = (fuzz = 0 \<and> pref = l \<or> fuzz = 1 \<and> take 2 pref = take 2 l)"

definition lang_set :: "nat \<Rightarrow> string \<Rightarrow> string \<Rightarrow> bool \<Rightarrow> stream_set_info" where
  "lang_set n t l m = \<lparr>set_uniqueId = n, contentType = t, lang = l, main = m, streamInfos = []\<rparr>"

subsection \<open>Stream limits\<close>

text \<open>
  The running end time of \<^verbatim>\<open>computeStreamLimits\<close>: a time, or
  \<^verbatim>\<open>Number.POSITIVE_INFINITY\<close> as long as no index has lowered it.
\<close>

datatype ext = Fin real | PosInf

fun ext_min :: "ext \<Rightarrow> real \<Rightarrow> ext" where
  "ext_min PosInf x = Fin x"
| "ext_min (Fin a) x = Fin (min a x)"

record stream_limits =
  limits_start :: real
  limits_end :: real

text \<open>
  The loop over \<^verbatim>\<open>segmentIndexes\<close>, with \<^verbatim>\<open>startTime\<close> and \<^verbatim>\<open>endTime\<close> as
  accumulators \<open>st\<close> and \<open>en\<close>. An empty index sets both to 0 and the loop goes on.
\<close>

fun limits_loop :: "manifest_info \<Rightarrow> segment_index list \<Rightarrow> real \<Rightarrow> ext \<Rightarrow> real \<times> ext" where
  "limits_loop m [] st en = (st, en)"
| "limits_loop m (ix # ixs) st en =
     (if length ix = 0 then limits_loop m ixs 0 (Fin 0)
      else
        (let st' = max st (startTime (hd ix)) in
         if live m then
           (let t = startTime (last ix) - minBufferTime m
            in limits_loop m ixs st' (ext_min en (max 0 t)))
         else
           (case endTime (last ix) of
              Some e \<Rightarrow> limits_loop m ixs st' (ext_min en e)
            | None \<Rightarrow> limits_loop m ixs st' en)))"

definition disjoint_check :: "real \<Rightarrow> real \<Rightarrow> error + stream_limits option" where
  "disjoint_check st en =
     (if st > en then Inr None else Inr (Some \<lparr>limits_start = st, limits_end = en\<rparr>))"

text \<open>
  \<^verbatim>\<open>computeStreamLimits(segmentIndexes)\<close>: \<open>Inr None\<close> is the result
  \<^verbatim>\<open>null\<close>, \<open>Inl\<close> an exception. With an end time still infinite after the loop,
  the duration of \<^verbatim>\<open>periodInfos[0]\<close> is used if it is truthy; reading it with no
  period throws. With a null manifest the loop throws at the first index that is not
  empty, and the fallback throws; only a list of empty indexes, one at least, gets through.
\<close>

definition computeStreamLimits ::
  "stream_video_source \<Rightarrow> segment_index list \<Rightarrow> error + stream_limits option" where
  "computeStreamLimits s segmentIndexes =
     (case manifestInfo s of
        None \<Rightarrow>
          (if segmentIndexes \<noteq> [] \<and> list_all (\<lambda>ix. length ix = 0) segmentIndexes
           then disjoint_check 0 0 else Inl TypeError)
      | Some m \<Rightarrow>
          (case limits_loop m segmentIndexes 0 PosInf of
             (st, Fin en) \<Rightarrow> disjoint_check st en
           | (st, PosInf) \<Rightarrow>
               (case periodInfos m of
                  [] \<Rightarrow> Inl TypeError
                | p # _ \<Rightarrow>
                    (if truthy (duration p) then disjoint_check st (js_num (duration p))
                     else Inr None))))"

text \<open>
  The play window in the words of the specification, for indexes that all have a
  reference: the start is the greatest first start time (and at least 0, where the loop
  starts);
  the end is, for live content, the least of \<open>max 0 (last start - minBufferTime)\<close>, and
  else the least end time of a last reference, or the first period's duration when no
  last reference has an end time; no window when there is no end or when start exceeds end.
\<close>

definition window_start :: "segment_index list \<Rightarrow> real" where
  "window_start ixs = Max (insert 0 (set (map (\<lambda>ix. startTime (hd ix)) ixs)))"

definition window_end :: "manifest_info \<Rightarrow> segment_index list \<Rightarrow> real option" where
  "window_end m ixs =
     (if live m \<and> ixs \<noteq> [] then
        Some (Min (set (map (\<lambda>ix. max 0 (startTime (last ix) - minBufferTime m)) ixs)))
      else if \<not> live m \<and> List.map_filter (\<lambda>ix. endTime (last ix)) ixs \<noteq> [] then
        Some (Min (set (List.map_filter (\<lambda>ix. endTime (last ix)) ixs)))
      else
        (case periodInfos m of
           [] \<Rightarrow> None
         | p # _ \<Rightarrow> if truthy (duration p) then duration p else None))"

definition play_window :: "manifest_info \<Rightarrow> segment_index list \<Rightarrow> stream_limits option" where
  "play_window m ixs =
     (case window_end m ixs of
        None \<Rightarrow> None
      | Some en \<Rightarrow>
          (if window_start ixs > en then None
           else Some \<lparr>limits_start = window_start ixs, limits_end = en\<rparr>))"

text \<open>
  The limits after an empty index, which sets start and end to 0: over the indexes
  \<open>ixs\<close> that follow it, all with a reference, the start is as before and the end is the
  least of 0 and the ends that these indexes give.
\<close>

definition window_ends :: "manifest_info \<Rightarrow> segment_index list \<Rightarrow> real list" where
  "window_ends m ixs =
     (if live m then map (\<lambda>ix. max 0 (startTime (last ix) - minBufferTime m)) ixs
      else List.map_filter (\<lambda>ix. endTime (last ix)) ixs)"

definition capped_window :: "manifest_info \<Rightarrow> segment_index list \<Rightarrow> stream_limits option" where
  "capped_window m ixs =
     (if window_start ixs > Min (insert 0 (set (window_ends m ixs))) then None
      else Some \<lparr>limits_start = window_start ixs,
                 limits_end = Min (insert 0 (set (window_ends m ixs)))\<rparr>)"

definition seg :: "real \<Rightarrow> real \<Rightarrow> segment_reference" where
  "seg a b = \<lparr>startTime = a, endTime = Some b\<rparr>"

text \<open>A manifest of one period of 60 seconds to run the operations on.\<close>

definition example_manifest :: "bool \<Rightarrow> real option \<Rightarrow> stream_set_info list \<Rightarrow> manifest_info" where
  "example_manifest lv upd sets =
     \<lparr>live = lv, minBufferTime = 2, updatePeriod = upd,
      periodInfos = [\<lparr>duration = Some 60, streamSetInfos = sets\<rparr>]\<rparr>"

subsection \<open>Loading and attaching\<close>

text \<open>
  \<^verbatim>\<open>load(preferredLanguage)\<close>. \<^verbatim>\<open>StreamInfoProcessor.process\<close> is not part of the
  sources at hand and is the parameter \<open>process\<close>: it gives the period list as it
  leaves the list it was handed. The result is the returned promise and the new state.
\<close>

definition load ::
  "(period_info list \<Rightarrow> period_info list) \<Rightarrow> string \<Rightarrow> stream_video_source
     \<Rightarrow> unit promise \<times> stream_video_source" where
  "load process preferredLanguage s =
     (if loaded s then (Rejected (stream_error ''Cannot call load() right now.''), s)
      else
        (case manifestInfo s of
           None \<Rightarrow> (Rejected (stream_error ''The manifest does not specify any content.''), s)
         | Some m \<Rightarrow>
             (if length (periodInfos m) = 0
              then (Rejected (stream_error ''The manifest does not specify any content.''), s)
              else
                (let processed = process (periodInfos m);
                     s1 = s\<lparr>lang_pref := preferredLanguage,
                            manifestInfo := Some (m\<lparr>periodInfos := processed\<rparr>)\<rparr>
                 in (case processed of
                       [] \<Rightarrow>
                         (Rejected (stream_error
                            ''The manifest specifies content that cannot be displayed on this browser/platform.''), s1)
                     | p # _ \<Rightarrow>
                         (if length (streamSetInfos p) = 0
                          then (Rejected (stream_error
                            ''The manifest specifies content that cannot be displayed on this browser/platform.''), s1)
                          else (Resolved (), s1\<lparr>loaded := True\<rparr>)))))))"

text \<open>
  \<^verbatim>\<open>attach(player, video)\<close>: rejected at once when not loaded; else the video
  element is taken and the promise stays pending until the media source opens.
\<close>

definition attach :: "video_element \<Rightarrow> stream_video_source \<Rightarrow> unit promise \<times> stream_video_source" where
  "attach v s =
     (if \<not> loaded s then (Rejected (stream_error ''Cannot call attach() right now.''), s)
      else (Pending, s\<lparr>video := Some v\<rparr>))"

subsection \<open>Selecting configurations\<close>

record stream_config =
  cfg_id :: nat
  basicMimeType :: string

text \<open>
  The MultiMap operations \<^verbatim>\<open>get\<close> and \<^verbatim>\<open>push\<close> on an association list in
  insertion order; \<^verbatim>\<open>has(k)\<close> is \<open>mm_get mm k \<noteq> None\<close>.
\<close>

definition mm_get :: "(string \<times> 'a list) list \<Rightarrow> string \<Rightarrow> 'a list option" where
  "mm_get mm k = map_of mm k"

definition mm_push :: "string \<Rightarrow> 'a \<Rightarrow> (string \<times> 'a list) list \<Rightarrow> (string \<times> 'a list) list" where
  "mm_push k v mm =
     (case map_of mm k of
        None \<Rightarrow> mm @ [(k, [v])]
      | Some vs \<Rightarrow> AList.update k (vs @ [v]) mm)"

text \<open>The loop that fills \<^verbatim>\<open>streamSetsById\<close>: a later set of the same id replaces an earlier one.\<close>

fun streamSetsById :: "stream_set_info list \<Rightarrow> (nat \<rightharpoonup> stream_set_info) \<Rightarrow> (nat \<rightharpoonup> stream_set_info)" where
  "streamSetsById [] byId = byId"
| "streamSetsById (st # sts) byId = streamSetsById sts (byId(set_uniqueId st \<mapsto> st))"

text \<open>
  \<^verbatim>\<open>this.streamSetsByType.push(type, streamSetsById[id])\<close> for each configuration of a
  list. For an id that no stream set of the period has, the value pushed is
  \<^verbatim>\<open>undefined\<close>: no stream set.
\<close>

fun push_all ::
  "(nat \<rightharpoonup> stream_set_info) \<Rightarrow> string \<Rightarrow> stream_config list
     \<Rightarrow> (string \<times> stream_set_info list) list \<Rightarrow> failure + (string \<times> stream_set_info list) list" where
  "push_all byId ty [] mm = Inr mm"
| "push_all byId ty (cfg # cfgs) mm =
     (case byId (cfg_id cfg) of
        None \<Rightarrow> Inl Not_a_stream_set
      | Some st \<Rightarrow> push_all byId ty cfgs (mm_push ty st mm))"

text \<open>
  The loop over \<^verbatim>\<open>configs.keys()\<close>: one video set, the audio sets sharing the basic
  MIME type of the first, every set of another type. Reading \<^verbatim>\<open>cfgList[0]\<close> of an
  empty list throws.
\<close>

fun select_types ::
  "(nat \<rightharpoonup> stream_set_info) \<Rightarrow> (string \<times> stream_config list) list
     \<Rightarrow> (string \<times> stream_set_info list) list \<Rightarrow> failure + (string \<times> stream_set_info list) list" where
  "select_types byId [] mm = Inr mm"
| "select_types byId ((ty, cfgList) # rest) mm =
     (case cfgList of
        [] \<Rightarrow>
          (if ty = ''video'' \<or> ty = ''audio'' then Inl (Threw TypeError)
           else select_types byId rest mm)
      | c # _ \<Rightarrow>
          (case (if ty = ''video'' then push_all byId ty [c] mm
                 else if ty = ''audio''
                 then push_all byId ty (filter (\<lambda>cfg. basicMimeType cfg = basicMimeType c) cfgList) mm
                 else push_all byId ty cfgList mm) of
             Inl f \<Rightarrow> Inl f
           | Inr mm' \<Rightarrow> select_types byId rest mm'))"

text \<open>
  The two blocks after the loop: the list of a type, if there is one, is ordered by
  language and stored back, and \<^verbatim>\<open>subsNeeded_\<close> is cleared when the language of the
  front set (or \<^verbatim>\<open>this.lang_\<close> when that is empty) matches the preference, for audio,
  or fails to match it, for text. \<open>clear_on\<close> is the outcome of the match that clears.
\<close>

definition sort_block ::
  "(int \<Rightarrow> string \<Rightarrow> string \<Rightarrow> bool) \<Rightarrow> int \<Rightarrow> int \<Rightarrow> string \<Rightarrow> bool
     \<Rightarrow> stream_video_source \<Rightarrow> failure + stream_video_source" where
  "sort_block lmatch lo hi ty clear_on s =
     (case mm_get (streamSetsByType s) ty of
        None \<Rightarrow> Inr s
      | Some sets \<Rightarrow>
          (let sorted = sortByLanguage lmatch lo hi (lang_pref s) sets;
               s1 = s\<lparr>streamSetsByType := AList.update ty sorted (streamSetsByType s)\<rparr>
           in (case sorted of
                 [] \<Rightarrow> Inl (Threw TypeError)
               | front # _ \<Rightarrow>
                   (let l = (if lang front \<noteq> [] then lang front else lang_pref s)
                    in if lmatch hi (lang_pref s) l = clear_on
                       then Inr (s1\<lparr>subsNeeded := False\<rparr>) else Inr s1))))"

text \<open>
  \<^verbatim>\<open>selectConfigurations(configs)\<close>. When not loaded it logs a warning and returns.
\<close>

definition selectConfigurations ::
  "(int \<Rightarrow> string \<Rightarrow> string \<Rightarrow> bool) \<Rightarrow> int \<Rightarrow> int \<Rightarrow> (string \<times> stream_config list) list
     \<Rightarrow> stream_video_source \<Rightarrow> failure + stream_video_source" where
  "selectConfigurations lmatch lo hi configs s =
     (if \<not> loaded s
      then Inr (s\<lparr>warnings := warnings s @ [''Cannot call selectConfigurations() right now.'']\<rparr>)
      else
        (case manifestInfo s of
           None \<Rightarrow> Inl (Threw TypeError)
         | Some m \<Rightarrow>
             (case periodInfos m of
                [] \<Rightarrow> Inl (Threw TypeError)
              | period # _ \<Rightarrow>
                  (case select_types (streamSetsById (streamSetInfos period) Map.empty) configs [] of
                     Inl f \<Rightarrow> Inl f
                   | Inr mm \<Rightarrow>
                       (case sort_block lmatch lo hi ''audio'' True
                               (s\<lparr>streamSetsByType := mm, subsNeeded := True\<rparr>) of
                          Inl f \<Rightarrow> Inl f
                        | Inr s2 \<Rightarrow> sort_block lmatch lo hi ''text'' False s2)))))"

subsection \<open>Restrictions\<close>

text \<open>
  The body of the innermost loop of \<^verbatim>\<open>setRestrictions\<close>: the flag is set, then
  cleared by each bound that is truthy and exceeded.
\<close>

definition restrict :: "restrictions \<Rightarrow> stream_info \<Rightarrow> stream_info" where
  "restrict r si =
     (let e0 = True;
          e1 = (if truthy (maxWidth r) \<and> js_num (width si) > js_num (maxWidth r) then False else e0);
          e2 = (if truthy (maxHeight r) \<and> js_num (height si) > js_num (maxHeight r) then False else e1);
          e3 = (if truthy (maxBandwidth r) \<and> js_num (bandwidth si) > js_num (maxBandwidth r)
                then False else e2);
          e4 = (if truthy (minBandwidth r) \<and> js_num (bandwidth si) < js_num (minBandwidth r)
                then False else e3)
      in si\<lparr>enabled := e4\<rparr>)"

definition restrict_set :: "restrictions \<Rightarrow> stream_set_info \<Rightarrow> stream_set_info" where
  "restrict_set r st = st\<lparr>streamInfos := map (restrict r) (streamInfos st)\<rparr>"

definition restrict_period :: "restrictions \<Rightarrow> period_info \<Rightarrow> period_info" where
  "restrict_period r p = p\<lparr>streamSetInfos := map (restrict_set r) (streamSetInfos p)\<rparr>"

text \<open>
  \<^verbatim>\<open>setRestrictions(restrictions)\<close>. When not loaded it logs a warning and returns.
  The loops walk the manifest; the stream sets of \<^verbatim>\<open>streamSetsByType\<close> are the same
  objects, as the source notes, so the flags change there as well. Of the stream info
  that a stream holds only the id is read, and it is left as it is.
\<close>

definition setRestrictions :: "restrictions \<Rightarrow> stream_video_source \<Rightarrow> error + stream_video_source" where
  "setRestrictions r s =
     (if \<not> loaded s
      then Inr (s\<lparr>warnings := warnings s @ [''Cannot call setRestrictions() right now.'']\<rparr>)
      else
        (case manifestInfo s of
           None \<Rightarrow> Inl TypeError
         | Some m \<Rightarrow>
             Inr (s\<lparr>cachedRestrictions := Some r,
                    manifestInfo := Some (m\<lparr>periodInfos := map (restrict_period r) (periodInfos m)\<rparr>),
                    streamSetsByType :=
                      map (\<lambda>(ty, sets). (ty, map (restrict_set r) sets)) (streamSetsByType s)\<rparr>)))"

subsection \<open>Track listings\<close>

record video_track =
  vt_id :: nat
  vt_bandwidth :: "real option"
  vt_width :: "real option"
  vt_height :: "real option"
  vt_active :: bool

record audio_track =
  at_id :: nat
  at_bandwidth :: "real option"
  at_lang :: string
  at_active :: bool

record text_track =
  tt_id :: nat
  tt_lang :: string
  tt_active :: bool
  tt_enabled :: bool

text \<open>
  \<^verbatim>\<open>activeId\<close>: the id of the stream info that the stream of the type plays, and 0
  with no stream or no stream info.
\<close>

definition activeId :: "stream_video_source \<Rightarrow> string \<Rightarrow> nat" where
  "activeId s ty =
     (case map_of (streamsByType s) ty of
        None \<Rightarrow> 0
      | Some str \<Rightarrow> (case getStreamInfo str of None \<Rightarrow> 0 | Some si \<Rightarrow> uniqueId si))"

text \<open>\<^verbatim>\<open>getVideoTracks()\<close>: a stream info that is not enabled is passed over.\<close>

definition getVideoTracks :: "stream_video_source \<Rightarrow> video_track list" where
  "getVideoTracks s =
     (case mm_get (streamSetsByType s) ''video'' of
        None \<Rightarrow> []
      | Some videoSets \<Rightarrow>
          concat (map (\<lambda>st.
            map (\<lambda>si. \<lparr>vt_id = uniqueId si, vt_bandwidth = bandwidth si, vt_width = width si,
                        vt_height = height si, vt_active = (uniqueId si = activeId s ''video'')\<rparr>)
              (filter enabled (streamInfos st))) videoSets))"

text \<open>\<^verbatim>\<open>getAudioTracks()\<close>: every stream info of every audio set gives a track.\<close>

definition getAudioTracks :: "stream_video_source \<Rightarrow> audio_track list" where
  "getAudioTracks s =
     (case mm_get (streamSetsByType s) ''audio'' of
        None \<Rightarrow> []
      | Some audioSets \<Rightarrow>
          concat (map (\<lambda>st.
            map (\<lambda>si. \<lparr>at_id = uniqueId si, at_bandwidth = bandwidth si, at_lang = lang st,
                        at_active = (uniqueId si = activeId s ''audio'')\<rparr>)
              (streamInfos st)) audioSets))"

text \<open>
  \<^verbatim>\<open>getTextTracks()\<close>: every stream info of every text set gives a track. The active
  track reads \<^verbatim>\<open>stream.getEnabled()\<close>, which throws when there is no text stream
  (a stream info of id 0 is then taken for the active one).
\<close>

definition text_track_of :: "stream_video_source \<Rightarrow> stream_set_info \<Rightarrow> stream_info \<Rightarrow> error + text_track" where
  "text_track_of s st si =
     (if uniqueId si = activeId s ''text'' then
        (case map_of (streamsByType s) ''text'' of
           None \<Rightarrow> Inl TypeError
         | Some str \<Rightarrow>
             Inr \<lparr>tt_id = uniqueId si, tt_lang = lang st, tt_active = True, tt_enabled = getEnabled str\<rparr>)
      else Inr \<lparr>tt_id = uniqueId si, tt_lang = lang st, tt_active = False, tt_enabled = False\<rparr>)"

fun collect :: "(error + 'a) list \<Rightarrow> error + 'a list" where
  "collect [] = Inr []"
| "collect (Inl e # rs) = Inl e"
| "collect (Inr x # rs) = (case collect rs of Inl e \<Rightarrow> Inl e | Inr xs \<Rightarrow> Inr (x # xs))"

definition getTextTracks :: "stream_video_source \<Rightarrow> error + text_track list" where
  "getTextTracks s =
     (case mm_get (streamSetsByType s) ''text'' of
        None \<Rightarrow> Inr []
      | Some textSets \<Rightarrow>
          collect (concat (map (\<lambda>st. map (text_track_of s st) (streamInfos st)) textSets)))"

text \<open>Stream infos and an audio set to run the operations on.\<close>

definition example_info :: "nat \<Rightarrow> real \<Rightarrow> stream_info" where
  "example_info n bw =
     \<lparr>uniqueId = n, bandwidth = Some bw, width = None, height = None, enabled = True,
      segmentIndexSource = Inr [seg 0 6, seg 6 12]\<rparr>"

definition example_audio :: stream_set_info where
  "example_audio =
     \<lparr>set_uniqueId = 1, contentType = ''audio'', lang = ''en'', main = False,
      streamInfos = [example_info 1 64000, example_info 2 128000]\<rparr>"

subsection \<open>Starting the streams\<close>

text \<open>An array read \<^verbatim>\<open>xs[i]\<close>: \<^verbatim>\<open>undefined\<close> (here \<open>None\<close>) beyond the end.\<close>

definition js_nth :: "'a list \<Rightarrow> nat \<Rightarrow> 'a option" where
  "js_nth xs i = (if i < length xs then Some (xs ! i) else None)"

text \<open>
  The search of \<^verbatim>\<open>selectStreamInfos_\<close> for the video stream info of the id that
  \<^verbatim>\<open>getInitialVideoTrackId()\<close> gave (\<open>None\<close> for \<^verbatim>\<open>null\<close>): \<open>cur\<close> is the variable
  \<^verbatim>\<open>streamInfo\<close>, which the loop leaves at the last element when nothing is found.
\<close>

fun video_loop :: "nat option \<Rightarrow> stream_info list \<Rightarrow> stream_info option \<Rightarrow> stream_info option" where
  "video_loop trackId [] cur = cur"
| "video_loop trackId (si # sis) cur =
     (if Some (uniqueId si) = trackId then Some si else video_loop trackId sis (Some si))"

definition initial_info :: "nat option \<Rightarrow> stream_set_info \<Rightarrow> stream_info option" where
  "initial_info trackId st =
     (if contentType st = ''video''
      then video_loop trackId (streamInfos st) (js_nth (streamInfos st) 0)
      else if contentType st = ''audio''
      then js_nth (streamInfos st) (length (streamInfos st) div 2)
      else js_nth (streamInfos st) 0)"

text \<open>
  \<^verbatim>\<open>selectStreamInfos_(streamSetInfos)\<close>: the object
  \<^verbatim>\<open>selectedStreamInfosByType\<close> is filled in the order of the list, a later set of a
  content type replacing the entry of an earlier one.
\<close>

fun select_loop ::
  "nat option \<Rightarrow> stream_set_info list \<Rightarrow> (string \<times> stream_info option) list
     \<Rightarrow> (string \<times> stream_info option) list" where
  "select_loop trackId [] sel = sel"
| "select_loop trackId (st # sts) sel =
     select_loop trackId sts (AList.update (contentType st) (initial_info trackId st) sel)"

definition selectStreamInfos ::
  "nat option \<Rightarrow> stream_set_info list \<Rightarrow> (string \<times> stream_info option) list" where
  "selectStreamInfos trackId sets = select_loop trackId sets []"

text \<open>
  The first part of \<^verbatim>\<open>createAndStartStreams_\<close>: for each of the types audio, video
  and text that \<^verbatim>\<open>streamSetsByType\<close> has, the first stream set of its list, and from
  these the initial stream infos. A list without a first set makes
  \<^verbatim>\<open>selectStreamInfos_\<close> throw.
\<close>

definition selectedStreamSetInfos :: "stream_video_source \<Rightarrow> stream_set_info option list" where
  "selectedStreamSetInfos s =
     concat (map (\<lambda>ty. case mm_get (streamSetsByType s) ty of
                          None \<Rightarrow> []
                        | Some sets \<Rightarrow> [js_nth sets 0])
               [''audio'', ''video'', ''text''])"

definition selectInitial ::
  "nat option \<Rightarrow> stream_video_source \<Rightarrow> error + (string \<times> stream_info option) list" where
  "selectInitial trackId s =
     (case those (selectedStreamSetInfos s) of
        None \<Rightarrow> Inl TypeError
      | Some sets \<Rightarrow> Inr (selectStreamInfos trackId sets))"

text \<open>
  \<^verbatim>\<open>createStreams_(streamInfosByType)\<close>: a text stream is always made; another stream
  is made when the source buffer can be added, which \<open>addSourceBuffer\<close> tells. The result
  is \<open>None\<close> for \<^verbatim>\<open>false\<close>, and else the new value of \<^verbatim>\<open>streamsByType_\<close>. A new
  stream has no stream info and no switch yet.
\<close>

definition new_stream :: stream where
  "new_stream = \<lparr>getStreamInfo = None, getEnabled = False, switched = []\<rparr>"

fun createStreams ::
  "(stream_info \<Rightarrow> bool) \<Rightarrow> (string \<times> stream_info) list \<Rightarrow> (string \<times> stream) list
     \<Rightarrow> (string \<times> stream) list option" where
  "createStreams addSourceBuffer [] streams = Some streams"
| "createStreams addSourceBuffer ((ty, si) # rest) streams =
     (if ty = ''text'' \<or> addSourceBuffer si
      then createStreams addSourceBuffer rest (AList.update ty new_stream streams)
      else None)"

text \<open>
  \<^verbatim>\<open>startStreams_(streamInfosByType, streamLimits)\<close> for the manifest \<open>m\<close>: the playback
  rate is kept and set to 0, the duration of the media source and the current time are
  set, every stream is switched to its stream info, and the text stream is enabled as
  \<^verbatim>\<open>subsNeeded_\<close> says. Reading \<^verbatim>\<open>this.video.playbackRate\<close> of a null video throws.
  The keys of \<^verbatim>\<open>streamsByType_\<close> are those of \<^verbatim>\<open>streamInfosByType\<close>.
\<close>

definition startStreams ::
  "manifest_info \<Rightarrow> (string \<times> stream_info) list \<Rightarrow> stream_limits \<Rightarrow> stream_video_source
     \<Rightarrow> error + stream_video_source" where
  "startStreams m streamInfosByType streamLimits s =
     (case video s of
        None \<Rightarrow> Inl TypeError
      | Some v \<Rightarrow>
          (let d = (if live m then limits_end streamLimits + 60 * 60 * 24 * 30
                    else limits_end streamLimits - limits_start streamLimits);
               streamStartTime = (if live m then limits_end streamLimits
                                  else limits_start streamLimits);
               v' = v\<lparr>playbackRate := 0, currentTime := streamStartTime\<rparr>;
               started = map (\<lambda>(ty, str).
                   (ty, case map_of streamInfosByType ty of
                          None \<Rightarrow> str
                        | Some si \<Rightarrow> str\<lparr>switched := switched str @ [(si, False)]\<rparr>))
                 (streamsByType s);
               streams = (case map_of started ''text'' of
                            None \<Rightarrow> started
                          | Some textStream \<Rightarrow>
                              AList.update ''text'' (textStream\<lparr>getEnabled := subsNeeded s\<rparr>) started)
           in Inr (s\<lparr>originalPlaybackRate := playbackRate v, video := Some v',
                      mediaSource_duration := Some d, streamsByType := streams\<rparr>)))"

text \<open>
  The continuation of \<^verbatim>\<open>createAndStartStreams_\<close> once every segment index is there.
  \<open>Inl\<close> is a rejection, with the state at that point.
\<close>

definition start_with_indexes ::
  "(stream_info \<Rightarrow> bool) \<Rightarrow> (string \<times> stream_info) list \<Rightarrow> segment_index list
     \<Rightarrow> stream_video_source \<Rightarrow> error \<times> stream_video_source + stream_video_source" where
  "start_with_indexes addSourceBuffer streamInfosByType segmentIndexes s =
     (if \<not> list_all (\<lambda>ix. length ix \<noteq> 0) segmentIndexes
      then Inl (stream_error ''Some streams are not available.'', s)
      else
        (case computeStreamLimits s segmentIndexes of
           Inl e \<Rightarrow> Inl (e, s)
         | Inr None \<Rightarrow> Inl (stream_error ''Some streams are not available.'', s)
         | Inr (Some streamLimits) \<Rightarrow>
             (case createStreams addSourceBuffer streamInfosByType [] of
                None \<Rightarrow> Inl (stream_error ''Failed to create Stream objects.'', s)
              | Some streams \<Rightarrow>
                  (let s1 = s\<lparr>streamsByType := streams\<rparr>
                   in (case manifestInfo s1 of
                         None \<Rightarrow> Inl (TypeError, s1)
                       | Some m \<Rightarrow>
                           (case startStreams m streamInfosByType streamLimits s1 of
                              Inl e \<Rightarrow> Inl (e, s1)
                            | Inr s2 \<Rightarrow> Inr s2))))))"

text \<open>
  The \<^verbatim>\<open>catch\<close> of \<^verbatim>\<open>createAndStartStreams_\<close>: an aborted error is dropped; for live
  content any other error is logged as a warning, the update timer is set with offset 0
  and the promise resolves; else the promise rejects with the error.
\<close>

definition catch_start :: "error \<Rightarrow> stream_video_source \<Rightarrow> unit promise \<times> stream_video_source" where
  "catch_start e s =
     (if etype e = Some ''aborted'' then (Resolved (), s)
      else
        (case manifestInfo s of
           None \<Rightarrow> (Rejected TypeError, s)
         | Some m \<Rightarrow>
             (if live m then
                (case setUpdateTimer 0 (s\<lparr>warnings := warnings s @ [message e]\<rparr>) of
                   Inl e' \<Rightarrow> (Rejected e', s\<lparr>warnings := warnings s @ [message e]\<rparr>)
                 | Inr s' \<Rightarrow> (Resolved (), s'))
              else (Rejected e, s))))"

text \<open>
  \<^verbatim>\<open>createAndStartStreams_()\<close>. \<open>Inl\<close> is an exception thrown before a promise is
  returned (a stream info that is \<^verbatim>\<open>undefined\<close>). \<^verbatim>\<open>Promise.all\<close> over the
  \<^verbatim>\<open>create()\<close> promises is taken to reject with the first rejection in the order of
  the list.
\<close>

definition createAndStartStreams ::
  "nat option \<Rightarrow> (stream_info \<Rightarrow> bool) \<Rightarrow> stream_video_source
     \<Rightarrow> error + unit promise \<times> stream_video_source" where
  "createAndStartStreams trackId addSourceBuffer s =
     (case selectInitial trackId s of
        Inl e \<Rightarrow> Inl e
      | Inr selected \<Rightarrow>
          (case those (map snd selected) of
             None \<Rightarrow> Inl TypeError
           | Some infos \<Rightarrow>
               Inr (case collect (map segmentIndexSource infos) of
                      Inl e \<Rightarrow> catch_start e s
                    | Inr segmentIndexes \<Rightarrow>
                        (case start_with_indexes addSourceBuffer (zip (map fst selected) infos)
                                segmentIndexes s of
                           Inl (e, s') \<Rightarrow> catch_start e s'
                         | Inr s' \<Rightarrow> (Resolved (), s')))))"


subsection \<open>Updating the manifest\<close>





definition example_video :: stream_set_info where
  "example_video =
     \<lparr>set_uniqueId = 2, contentType = ''video'', lang = '''', main = False,
      streamInfos = [example_info 10 1000000, example_info 11 3000000, example_info 12 5000000]\<rparr>"

definition example_text :: stream_set_info where
  "example_text =
     \<lparr>set_uniqueId = 3, contentType = ''text'', lang = ''en'', main = False,
      streamInfos = [example_info 20 0, example_info 21 0]\<rparr>"

text \<open>A loaded source with the three example sets selected, for a manifest as given.\<close>

definition example_source :: "manifest_info \<Rightarrow> stream_video_source" where
  "example_source m =
     (StreamVideoSource (Some m))
       \<lparr>loaded := True,
        streamSetsByType :=
          [(''video'', [example_video]), (''audio'', [example_audio]), (''text'', [example_text])]\<rparr>"

text \<open>A source whose only selected stream info has the segment index source given.\<close>

definition single_audio_source :: "manifest_info \<Rightarrow> error + segment_index \<Rightarrow> stream_video_source" where
  "single_audio_source m src =
     (StreamVideoSource (Some m))
       \<lparr>loaded := True,
        streamSetsByType :=
          [(''audio'', [\<lparr>set_uniqueId = 1, contentType = ''audio'', lang = ''en'', main = False,
              streamInfos = [(example_info 1 64000)\<lparr>segmentIndexSource := src\<rparr>]\<rparr>])]\<rparr>"

section \<open>DurationSegmentIndexSource\<close>

text \<open>
  A number is a double: a real that a double represents, one of the two infinities, or
  \<^verbatim>\<open>NaN\<close>. \<open>fl\<close> rounds a real to the nearest double, a tie going to the even
  mantissa. \<open>scale\<close> brings a positive real \<open>x\<close> to the form \<open>m * 2 ^ e\<close> with
  \<open>2 ^ 52 \<le> m < 2 ^ 53\<close>, or with \<open>e = - 1074\<close> and a smaller \<open>m\<close> for a subnormal
  result; its first argument bounds the number of steps, and 2200 of them reach every
  exponent of a double. A result of \<open>2 ^ 1024\<close> or more is an infinity.
\<close>

datatype jsnum = Num real | PInf | NInf | NaN

definition round_even :: "real \<Rightarrow> int" where
  "round_even x =
     (let f = \<lfloor>x\<rfloor>
      in if x - of_int f < 1 / 2 then f
         else if x - of_int f > 1 / 2 then f + 1
         else if even f then f else f + 1)"

function scale :: "nat \<Rightarrow> real \<Rightarrow> int \<Rightarrow> real \<times> int" where
  "scale fuel x e =
     (if fuel = 0 then (x, e)
      else if 2 ^ 53 \<le> x then scale (fuel - 1) (x / 2) (e + 1)
      else if x < 2 ^ 52 \<and> - 1074 < e then scale (fuel - 1) (2 * x) (e - 1)
      else (x, e))"
  by pat_completeness auto
termination
  by (relation "measure (\<lambda>(fuel, x, e). fuel)") auto

declare scale.simps [simp del]

definition pow2 :: "int \<Rightarrow> real" where
  "pow2 e = (if 0 \<le> e then 2 ^ nat e else 1 / 2 ^ nat (- e))"

definition fl_pos :: "real \<Rightarrow> jsnum" where
  "fl_pos x =
     (case scale 2200 x 0 of
        (m, e) \<Rightarrow>
          (let r = of_int (round_even m) * pow2 e
           in if 2 ^ 53 \<le> m \<or> 2 ^ 1024 \<le> r then PInf else Num r))"

definition fl :: "real \<Rightarrow> jsnum" where
  "fl x =
     (if x = 0 then Num 0
      else if 0 < x then fl_pos x
      else (case fl_pos (- x) of Num r \<Rightarrow> Num (- r) | _ \<Rightarrow> NInf))"

text \<open>
  \<open>js_div a b\<close> is \<^verbatim>\<open>a / b\<close> for a finite \<open>a\<close>: the quotient rounded to a double (the
  sign of a zero is not followed). \<open>js_ceil\<close> is \<^verbatim>\<open>Math.ceil\<close>.
\<close>

fun js_div :: "real \<Rightarrow> jsnum \<Rightarrow> jsnum" where
  "js_div a (Num b) =
     (if b \<noteq> 0 then fl (a / b) else if a = 0 then NaN else if a > 0 then PInf else NInf)"
| "js_div a PInf = Num 0"
| "js_div a NInf = Num 0"
| "js_div a NaN = NaN"

fun js_ceil :: "jsnum \<Rightarrow> jsnum" where
  "js_ceil (Num x) = Num (of_int \<lceil>x\<rceil>)"
| "js_ceil PInf = PInf"
| "js_ceil NInf = NInf"
| "js_ceil NaN = NaN"

record Mpd =
  mpd_type :: string

record Period =
  period_start :: "real option"
  period_duration :: "real option"

record SegmentTemplate =
  timescale :: real
  segmentDuration :: "real option"

record Representation =
  segmentTemplate :: "SegmentTemplate option"

text \<open>
  The fields of a \<^verbatim>\<open>DurationSegmentIndexSource\<close> (\<^verbatim>\<open>mpd_\<close>, \<^verbatim>\<open>period_\<close>,
  \<^verbatim>\<open>representation_\<close> as \<open>representation_src\<close>, \<^verbatim>\<open>manifestCreationTime_\<close>,
  \<^verbatim>\<open>segmentIndex_\<close>). Segment
  index objects live in a heap, a list in the order of their construction, and
  \<open>segmentIndex\<close> holds the address of the object: its position in the list.
\<close>

record duration_source =
  mpd :: "Mpd option"
  period :: "Period option"
  representation_src :: "Representation option"
  manifestCreationTime :: real
  segmentIndex :: "nat option"

type_synonym index_heap = "segment_index list"

definition DurationSegmentIndexSource ::
  "Mpd \<Rightarrow> Period \<Rightarrow> Representation \<Rightarrow> real \<Rightarrow> duration_source" where
  "DurationSegmentIndexSource mp per rep created =
     \<lparr>mpd = Some mp, period = Some per, representation_src = Some rep,
      manifestCreationTime = created, segmentIndex = None\<rparr>"

text \<open>What the constructor asserts of its arguments.\<close>

definition constructor_asserts :: "Mpd \<Rightarrow> Period \<Rightarrow> Representation \<Rightarrow> bool" where
  "constructor_asserts mp per rep =
     (period_start per \<noteq> None
      \<and> (mpd_type mp = ''dynamic'' \<or> period_duration per \<noteq> None)
      \<and> (case segmentTemplate rep of
           None \<Rightarrow> False
         | Some t \<Rightarrow> timescale t > 0 \<and> truthy (segmentDuration t)))"

definition destroy :: "duration_source \<Rightarrow> duration_source" where
  "destroy src = src\<lparr>mpd := None, period := None, representation_src := None, segmentIndex := None\<rparr>"

text \<open>
  Modelled from the spec: \<^verbatim>\<open>shaka.dash.MpdUtils.generateSegmentReferences\<close> is not part
  of the sources at hand. The specification has the template with a duration generate
  the computed number of references; the code calls it with the representation, the
  first segment number and the number of segments, and takes a null result for a
  failure. Here \<open>mk\<close> makes the reference of one segment number from the template, or
  fails; for a count that is a whole number and not negative the result has one
  reference for each of \<open>numSegments\<close> numbers from \<open>firstSegmentNumber\<close> on, and is null
  when one of them fails. There is no list of any other count.
\<close>

definition generateSegmentReferences ::
  "(Representation \<Rightarrow> int \<Rightarrow> segment_reference option) \<Rightarrow> Representation \<Rightarrow> int \<Rightarrow> jsnum
     \<Rightarrow> segment_reference list option" where
  "generateSegmentReferences mk rep firstSegmentNumber numSegments =
     (case numSegments of
        Num n \<Rightarrow>
          (if 0 \<le> n \<and> n = of_int \<lfloor>n\<rfloor>
           then those (map (\<lambda>i. mk rep (firstSegmentNumber + int i)) [0..<nat \<lfloor>n\<rfloor>])
           else None)
      | _ \<Rightarrow> None)"

text \<open>
  \<^verbatim>\<open>create()\<close>. \<open>gen\<close> stands for \<^verbatim>\<open>MpdUtils.generateSegmentReferences\<close> and
  \<open>mkLive\<close> for the constructor of \<^verbatim>\<open>DynamicLiveSegmentIndex\<close>, which may throw. The
  result is the promise, settled with the address of the segment index, the source and
  the heap; \<open>Inl\<close> is an exception of \<^verbatim>\<open>create\<close> itself, on a source whose fields
  are null.
\<close>

definition create ::
  "(Representation \<Rightarrow> int \<Rightarrow> jsnum \<Rightarrow> segment_reference list option)
     \<Rightarrow> (Mpd \<Rightarrow> Period option \<Rightarrow> Representation option \<Rightarrow> real \<Rightarrow> error + segment_index)
     \<Rightarrow> duration_source \<Rightarrow> index_heap
     \<Rightarrow> error + nat promise \<times> duration_source \<times> index_heap" where
  "create gen mkLive src h =
     (case segmentIndex src of
        Some a \<Rightarrow> Inr (Resolved a, src, h)
      | None \<Rightarrow>
          (case mpd src of
             None \<Rightarrow> Inl TypeError
           | Some mp \<Rightarrow>
               (if mpd_type mp = ''dynamic'' then
                  (case mkLive mp (period src) (representation_src src) (manifestCreationTime src) of
                     Inl exception \<Rightarrow> Inr (Rejected exception, src, h)
                   | Inr ix \<Rightarrow>
                       Inr (Resolved (length h), src\<lparr>segmentIndex := Some (length h)\<rparr>, h @ [ix]))
                else
                  (case representation_src src of
                     None \<Rightarrow> Inl TypeError
                   | Some rep \<Rightarrow>
                       (case segmentTemplate rep of
                          None \<Rightarrow> Inl TypeError
                        | Some tmpl \<Rightarrow>
                            (case period src of
                               None \<Rightarrow> Inl TypeError
                             | Some per \<Rightarrow>
                                 (let scaledSegmentDuration =
                                        js_div (js_num (segmentDuration tmpl)) (Num (timescale tmpl));
                                      numSegments =
                                        js_ceil (js_div (js_num (period_duration per))
                                                   scaledSegmentDuration)
                                  in (case gen rep 1 numSegments of
                                        None \<Rightarrow>
                                          Inr (Rejected (Error (Some ''stream'')
                                                 ''Failed to generate SegmentReferences''), src, h)
                                      | Some references \<Rightarrow>
                                          Inr (Resolved (length h),
                                               src\<lparr>segmentIndex := Some (length h)\<rparr>,
                                               h @ [references])))))))))"



definition sevenths :: "Representation \<Rightarrow> int \<Rightarrow> segment_reference option" where
  "sevenths rep k = Some (seg (17 * (of_int k - 1) / 7) (17 * of_int k / 7))"

definition rounding_source :: duration_source where
  "rounding_source =
     DurationSegmentIndexSource \<lparr>mpd_type = ''static''\<rparr>
       \<lparr>period_start = Some 0, period_duration = Some 17\<rparr>
       \<lparr>segmentTemplate = Some \<lparr>timescale = 7, segmentDuration = Some 17\<rparr>\<rparr> 0"


section \<open>Ordering by language\<close>

lemma first_index_Some:
  "first_index P xs = Some i \<longleftrightarrow> i < length xs \<and> P (xs ! i) \<and> (\<forall>j<i. \<not> P (xs ! j))"
proof (induction xs arbitrary: i)
  case Nil
  then show ?case by simp
next
  case (Cons x xs)
  show ?case
  proof (cases "P x")
    case True
    then show ?thesis by (cases i) auto
  next
    case False
    then show ?thesis
      using Cons.IH
      apply (cases i)
       apply (auto simp: nth_Cons' less_Suc_eq_0_disj)
      done
  qed
qed

lemma first_index_None: "first_index P xs = None \<longleftrightarrow> (\<forall>x\<in>set xs. \<not> P x)"
  by (induction xs) auto

lemma mset_move_to_front: "i < length xs \<Longrightarrow> mset (move_to_front i xs) = mset xs"
proof -
  assume i: "i < length xs"
  have "xs = take i xs @ xs ! i # drop (Suc i) xs"
    using i by (simp add: id_take_nth_drop)
  then have "mset xs = mset (take i xs @ xs ! i # drop (Suc i) xs)" by simp
  then show ?thesis by (simp add: move_to_front_def)
qed

lemma fuzz_loop_Some:
  "fuzz_loop lm f hi pref xs = Some r \<Longrightarrow>
     \<exists>g i. f \<le> g \<and> g \<le> hi \<and> first_index (\<lambda>st. lm g pref (lang st)) xs = Some i
        \<and> (\<forall>h. f \<le> h \<and> h < g \<longrightarrow> first_index (\<lambda>st. lm h pref (lang st)) xs = None)
        \<and> r = move_to_front i xs"
proof (induction lm f hi pref xs rule: fuzz_loop.induct)
  case (1 lm f hi pref xs)
  from "1.prems" have le: "f \<le> hi"
    by (simp split: if_splits)
  show ?case
  proof (cases "first_index (\<lambda>st. lm f pref (lang st)) xs")
    case (Some i)
    with "1.prems" le have "r = move_to_front i xs" by simp
    with Some le show ?thesis by force
  next
    case None
    with "1.prems" le have "fuzz_loop lm (f + 1) hi pref xs = Some r" by simp
    from "1.IH" [OF le None this] obtain g i where
      g: "f + 1 \<le> g" "g \<le> hi" "first_index (\<lambda>st. lm g pref (lang st)) xs = Some i"
        "\<forall>h. f + 1 \<le> h \<and> h < g \<longrightarrow> first_index (\<lambda>st. lm h pref (lang st)) xs = None"
        "r = move_to_front i xs"
      by blast
    have "\<forall>h. f \<le> h \<and> h < g \<longrightarrow> first_index (\<lambda>st. lm h pref (lang st)) xs = None"
    proof (intro allI impI)
      fix h assume h: "f \<le> h \<and> h < g"
      show "first_index (\<lambda>st. lm h pref (lang st)) xs = None"
      proof (cases "h = f")
        case True
        with None show ?thesis by simp
      next
        case False
        with h have "f + 1 \<le> h \<and> h < g" by simp
        with g(4) show ?thesis by blast
      qed
    qed
    with g show ?thesis
      by (intro exI [of _ g] exI [of _ i]) simp
  qed
qed

lemma fuzz_loop_None:
  "fuzz_loop lm f hi pref xs = None \<longleftrightarrow>
     (\<forall>g. f \<le> g \<and> g \<le> hi \<longrightarrow> first_index (\<lambda>st. lm g pref (lang st)) xs = None)"
proof (induction lm f hi pref xs rule: fuzz_loop.induct)
  case (1 lm f hi pref xs)
  show ?case
  proof (cases "f \<le> hi")
    case False
    then have "\<And>g. f \<le> g \<Longrightarrow> \<not> g \<le> hi" by linarith
    with False show ?thesis by auto
  next
    case le: True
    show ?thesis
    proof (cases "first_index (\<lambda>st. lm f pref (lang st)) xs")
      case (Some i)
      with le show ?thesis by force
    next
      case None
      have "(\<forall>g. f \<le> g \<and> g \<le> hi \<longrightarrow> first_index (\<lambda>st. lm g pref (lang st)) xs = None)
          \<longleftrightarrow> (\<forall>g. f + 1 \<le> g \<and> g \<le> hi \<longrightarrow> first_index (\<lambda>st. lm g pref (lang st)) xs = None)"
      proof
        assume "\<forall>g. f \<le> g \<and> g \<le> hi \<longrightarrow> first_index (\<lambda>st. lm g pref (lang st)) xs = None"
        then show "\<forall>g. f + 1 \<le> g \<and> g \<le> hi \<longrightarrow> first_index (\<lambda>st. lm g pref (lang st)) xs = None"
          by simp
      next
        assume a: "\<forall>g. f + 1 \<le> g \<and> g \<le> hi \<longrightarrow> first_index (\<lambda>st. lm g pref (lang st)) xs = None"
        show "\<forall>g. f \<le> g \<and> g \<le> hi \<longrightarrow> first_index (\<lambda>st. lm g pref (lang st)) xs = None"
        proof (intro allI impI)
          fix g assume g: "f \<le> g \<and> g \<le> hi"
          show "first_index (\<lambda>st. lm g pref (lang st)) xs = None"
          proof (cases "g = f")
            case True
            with None show ?thesis by simp
          next
            case False
            with g have "f + 1 \<le> g \<and> g \<le> hi" by simp
            with a show ?thesis by blast
          qed
        qed
      qed
      with "1.IH" [OF le None] None le show ?thesis by simp
    qed
  qed
qed

lemma move_to_front_shape: "move_to_front i xs = xs ! i # take i xs @ drop (Suc i) xs"
  by (simp add: move_to_front_def)

lemma sortByLanguage_cases:
  "(\<exists>f i. lo \<le> f \<and> f \<le> hi \<and> first_index (\<lambda>st. lm f pref (lang st)) xs = Some i
        \<and> (\<forall>h. lo \<le> h \<and> h < f \<longrightarrow> first_index (\<lambda>st. lm h pref (lang st)) xs = None)
        \<and> sortByLanguage lm lo hi pref xs = move_to_front i xs)
   \<or> ((\<forall>g. lo \<le> g \<and> g \<le> hi \<longrightarrow> first_index (\<lambda>st. lm g pref (lang st)) xs = None)
        \<and> (\<exists>i. first_index main xs = Some i \<and> sortByLanguage lm lo hi pref xs = move_to_front i xs))
   \<or> ((\<forall>g. lo \<le> g \<and> g \<le> hi \<longrightarrow> first_index (\<lambda>st. lm g pref (lang st)) xs = None)
        \<and> first_index main xs = None \<and> sortByLanguage lm lo hi pref xs = xs)"
proof (cases "fuzz_loop lm lo hi pref xs")
  case (Some r)
  from fuzz_loop_Some [OF Some] Some show ?thesis
    by (auto simp: sortByLanguage_def)
next
  case None
  then have n: "\<forall>g. lo \<le> g \<and> g \<le> hi \<longrightarrow> first_index (\<lambda>st. lm g pref (lang st)) xs = None"
    by (rule fuzz_loop_None [THEN iffD1])
  show ?thesis
  proof (cases "first_index main xs")
    case f: None
    with None n show ?thesis by (simp add: sortByLanguage_def)
  next
    case (Some i)
    with None n show ?thesis by (simp add: sortByLanguage_def)
  qed
qed

text \<open>
  C10. Ordering by language permutes the list: the multiset of stream sets is kept, and
  the result is either the list itself or the list with one element \<open>xs ! i\<close> taken
  out and put in front, the others in their old order. The element moved is the first set
  matching at the lowest fuzz level at which any set matches; when no set matches at any
  level it is the first set flagged main, and with no such set the list stays as it is.
\<close>

theorem sortByLanguage_permutation:
  "mset (sortByLanguage lm lo hi pref xs) = mset xs
   \<and> (sortByLanguage lm lo hi pref xs = xs
      \<or> (\<exists>i<length xs. sortByLanguage lm lo hi pref xs = xs ! i # take i xs @ drop (Suc i) xs))
   \<and> (\<forall>f i. lo \<le> f \<and> f \<le> hi \<and> i < length xs
          \<and> lm f pref (lang (xs ! i)) \<and> (\<forall>j<i. \<not> lm f pref (lang (xs ! j)))
          \<and> (\<forall>g. lo \<le> g \<and> g < f \<longrightarrow> (\<forall>x\<in>set xs. \<not> lm g pref (lang x)))
        \<longrightarrow> sortByLanguage lm lo hi pref xs = xs ! i # take i xs @ drop (Suc i) xs)
   \<and> ((\<forall>g. lo \<le> g \<and> g \<le> hi \<longrightarrow> (\<forall>x\<in>set xs. \<not> lm g pref (lang x)))
        \<longrightarrow> (\<forall>i<length xs. main (xs ! i) \<and> (\<forall>j<i. \<not> main (xs ! j))
               \<longrightarrow> sortByLanguage lm lo hi pref xs = xs ! i # take i xs @ drop (Suc i) xs)
          \<and> ((\<forall>x\<in>set xs. \<not> main x) \<longrightarrow> sortByLanguage lm lo hi pref xs = xs))"
  (is "?perm \<and> ?shape \<and> ?lang \<and> ?main")
proof (intro conjI)
  note c = sortByLanguage_cases [of lo hi lm pref xs]
  show ?perm
    using c by (auto simp: first_index_Some mset_move_to_front)
  show ?shape
    using c by (auto simp: first_index_Some move_to_front_shape)
  show ?lang
  proof (intro allI impI)
    fix f i
    assume a: "lo \<le> f \<and> f \<le> hi \<and> i < length xs
          \<and> lm f pref (lang (xs ! i)) \<and> (\<forall>j<i. \<not> lm f pref (lang (xs ! j)))
          \<and> (\<forall>g. lo \<le> g \<and> g < f \<longrightarrow> (\<forall>x\<in>set xs. \<not> lm g pref (lang x)))"
    then have fi: "first_index (\<lambda>st. lm f pref (lang st)) xs = Some i"
      by (simp add: first_index_Some)
    from a have lower: "\<forall>g. lo \<le> g \<and> g < f \<longrightarrow> first_index (\<lambda>st. lm g pref (lang st)) xs = None"
      by (simp add: first_index_None)
    from c show "sortByLanguage lm lo hi pref xs = xs ! i # take i xs @ drop (Suc i) xs"
    proof (elim disjE exE conjE)
      fix f' i'
      assume b: "lo \<le> f'" "f' \<le> hi" "first_index (\<lambda>st. lm f' pref (lang st)) xs = Some i'"
        "\<forall>h. lo \<le> h \<and> h < f' \<longrightarrow> first_index (\<lambda>st. lm h pref (lang st)) xs = None"
        "sortByLanguage lm lo hi pref xs = move_to_front i' xs"
      have "f' = f"
      proof (rule ccontr)
        assume "f' \<noteq> f"
        then consider "f' < f" | "f < f'" by linarith
        then show False
        proof cases
          case 1
          with lower b(1) b(3) show False by auto
        next
          case 2
          with b(4) a fi show False by auto
        qed
      qed
      with b(3) fi have "i' = i" by simp
      with b(5) show ?thesis by (simp add: move_to_front_shape)
    next
      fix i'
      assume "\<forall>g. lo \<le> g \<and> g \<le> hi \<longrightarrow> first_index (\<lambda>st. lm g pref (lang st)) xs = None"
      with a fi show ?thesis by auto
    next
      assume "\<forall>g. lo \<le> g \<and> g \<le> hi \<longrightarrow> first_index (\<lambda>st. lm g pref (lang st)) xs = None"
      with a fi show ?thesis by auto
    qed
  qed
  show ?main
  proof (intro impI)
    assume "\<forall>g. lo \<le> g \<and> g \<le> hi \<longrightarrow> (\<forall>x\<in>set xs. \<not> lm g pref (lang x))"
    then have n: "\<forall>g. lo \<le> g \<and> g \<le> hi \<longrightarrow> first_index (\<lambda>st. lm g pref (lang st)) xs = None"
      by (simp add: first_index_None)
    with c have m: "(\<exists>i. first_index main xs = Some i \<and> sortByLanguage lm lo hi pref xs = move_to_front i xs)
       \<or> (first_index main xs = None \<and> sortByLanguage lm lo hi pref xs = xs)"
      by force
    show "(\<forall>i<length xs. main (xs ! i) \<and> (\<forall>j<i. \<not> main (xs ! j))
               \<longrightarrow> sortByLanguage lm lo hi pref xs = xs ! i # take i xs @ drop (Suc i) xs)
          \<and> ((\<forall>x\<in>set xs. \<not> main x) \<longrightarrow> sortByLanguage lm lo hi pref xs = xs)"
    proof (intro conjI allI impI)
      fix i assume "i < length xs" "main (xs ! i) \<and> (\<forall>j<i. \<not> main (xs ! j))"
      then have "first_index main xs = Some i" by (simp add: first_index_Some)
      with m show "sortByLanguage lm lo hi pref xs = xs ! i # take i xs @ drop (Suc i) xs"
        by (auto simp: move_to_front_shape)
    next
      assume "\<forall>x\<in>set xs. \<not> main x"
      then have "first_index main xs = None" by (simp add: first_index_None)
      with m show "sortByLanguage lm lo hi pref xs = xs" by auto
    qed
  qed
qed

theorem sortByLanguage_permutation_witness:
  "sortByLanguage primary_match 0 2 ''fr-CA''
     [lang_set 1 ''audio'' ''en'' True, lang_set 2 ''audio'' ''fr'' False, lang_set 3 ''audio'' ''de'' False]
   = [lang_set 2 ''audio'' ''fr'' False, lang_set 1 ''audio'' ''en'' True, lang_set 3 ''audio'' ''de'' False]"
proof -
  let ?xs = "[lang_set 1 ''audio'' ''en'' True, lang_set 2 ''audio'' ''fr'' False,
              lang_set 3 ''audio'' ''de'' False]"
  have "\<forall>g. (0::int) \<le> g \<and> g < 1 \<longrightarrow> (\<forall>x\<in>set ?xs. \<not> primary_match g ''fr-CA'' (lang x))"
    by (auto simp: primary_match_def lang_set_def)
  then have "(0::int) \<le> 1 \<and> (1::int) \<le> 2 \<and> 1 < length ?xs
      \<and> primary_match 1 ''fr-CA'' (lang (?xs ! 1))
      \<and> (\<forall>j<1. \<not> primary_match 1 ''fr-CA'' (lang (?xs ! j)))
      \<and> (\<forall>g. (0::int) \<le> g \<and> g < 1 \<longrightarrow> (\<forall>x\<in>set ?xs. \<not> primary_match g ''fr-CA'' (lang x)))"
    by (simp add: primary_match_def lang_set_def)
  with sortByLanguage_permutation [of primary_match 0 2 "''fr-CA''" ?xs]
  have "sortByLanguage primary_match 0 2 ''fr-CA'' ?xs = ?xs ! 1 # take 1 ?xs @ drop (Suc 1) ?xs"
    by blast
  then show ?thesis by simp
qed

section \<open>Stream limits\<close>

lemma limits_loop_append:
  "limits_loop m (xs @ ys) st en = (case limits_loop m xs st en of (a, b) \<Rightarrow> limits_loop m ys a b)"
  by (induction xs arbitrary: st en) (auto simp: Let_def split: option.splits)

lemma limits_loop_empty_last: "limits_loop m (ixs @ [[]]) st en = (0, Fin 0)"
  by (simp add: limits_loop_append split: prod.splits)

lemma limits_loop_fst:
  "\<forall>ix\<in>set ixs. ix \<noteq> [] \<Longrightarrow>
     fst (limits_loop m ixs st en) = fold max (map (\<lambda>ix. startTime (hd ix)) ixs) st"
  by (induction ixs arbitrary: st en) (auto simp: Let_def max.commute split: option.splits)

lemma limits_loop_snd_live:
  "live m \<Longrightarrow> \<forall>ix\<in>set ixs. ix \<noteq> [] \<Longrightarrow>
     snd (limits_loop m ixs st en)
       = fold (\<lambda>x a. ext_min a x) (map (\<lambda>ix. max 0 (startTime (last ix) - minBufferTime m)) ixs) en"
  by (induction ixs arbitrary: st en) (auto simp: Let_def)

lemma limits_loop_snd_static:
  "\<not> live m \<Longrightarrow> \<forall>ix\<in>set ixs. ix \<noteq> [] \<Longrightarrow>
     snd (limits_loop m ixs st en)
       = fold (\<lambda>x a. ext_min a x) (List.map_filter (\<lambda>ix. endTime (last ix)) ixs) en"
  by (induction ixs arbitrary: st en) (auto simp: Let_def map_filter_simps split: option.splits)

lemma fold_ext_min_Fin: "fold (\<lambda>x a. ext_min a x) xs (Fin a) = Fin (fold min xs a)"
  by (induction xs arbitrary: a) (auto simp: min.commute)

lemma fold_ext_min_PosInf:
  "fold (\<lambda>x a. ext_min a x) xs PosInf = (if xs = [] then PosInf else Fin (Min (set xs)))"
proof (cases xs)
  case Nil
  then show ?thesis by simp
next
  case (Cons x r)
  then show ?thesis
    by (simp add: fold_ext_min_Fin Min.set_eq_fold [symmetric] del: set_simps)
qed

lemma window_start_fold: "window_start ixs = fold max (map (\<lambda>ix. startTime (hd ix)) ixs) 0"
proof -
  have "insert 0 (set (map (\<lambda>ix. startTime (hd ix)) ixs)) = set (0 # map (\<lambda>ix. startTime (hd ix)) ixs)"
    by simp
  then show ?thesis
    unfolding window_start_def by (simp only: Max.set_eq_fold)
qed

lemma window_start_Max:
  assumes "ixs \<noteq> []" and "\<forall>ix\<in>set ixs. 0 \<le> startTime (hd ix)"
  shows "window_start ixs = Max (set (map (\<lambda>ix. startTime (hd ix)) ixs))"
proof -
  let ?F = "set (map (\<lambda>ix. startTime (hd ix)) ixs)"
  have ne: "?F \<noteq> {}" using assms(1) by simp
  obtain ix where "ix \<in> set ixs" using assms(1) by (cases ixs) auto
  with assms(2) have "0 \<le> startTime (hd ix)" "startTime (hd ix) \<in> ?F" by auto
  then have "0 \<le> Max ?F" by (meson List.finite_set Max_ge order_trans)
  then show ?thesis
    unfolding window_start_def using ne by (simp add: max_def)
qed

lemma computeStreamLimits_nonempty:
  assumes "manifestInfo s = Some m" and "\<forall>ix\<in>set ixs. ix \<noteq> []" and "periodInfos m \<noteq> []"
  shows "computeStreamLimits s ixs = Inr (play_window m ixs)"
proof -
  obtain st en where l: "limits_loop m ixs 0 PosInf = (st, en)" by (cases "limits_loop m ixs 0 PosInf")
  from l limits_loop_fst [OF assms(2), of m 0 PosInf] have st: "st = window_start ixs"
    by (simp add: window_start_fold)
  obtain p ps where p: "periodInfos m = p # ps" using assms(3) by (cases "periodInfos m") auto
  show ?thesis
  proof (cases "live m")
    case True
    from l limits_loop_snd_live [OF True assms(2), of 0 PosInf]
    have "en = (if ixs = [] then PosInf
                else Fin (Min (set (map (\<lambda>ix. max 0 (startTime (last ix) - minBufferTime m)) ixs))))"
      by (simp add: fold_ext_min_PosInf)
    with l st True p assms(1) show ?thesis
      by (auto simp: computeStreamLimits_def play_window_def window_end_def disjoint_check_def
            truthy_def js_num_def split: option.splits)
  next
    case False
    from l limits_loop_snd_static [OF False assms(2), of 0 PosInf]
    have "en = (if List.map_filter (\<lambda>ix. endTime (last ix)) ixs = [] then PosInf
                else Fin (Min (set (List.map_filter (\<lambda>ix. endTime (last ix)) ixs))))"
      by (simp add: fold_ext_min_PosInf)
    with l st False p assms(1) show ?thesis
      by (auto simp: computeStreamLimits_def play_window_def window_end_def disjoint_check_def
            truthy_def js_num_def split: option.splits)
  qed
qed

lemma computeStreamLimits_empty_last:
  assumes "manifestInfo s = Some m"
  shows "computeStreamLimits s (ixs @ [[]]) = Inr (Some \<lparr>limits_start = 0, limits_end = 0\<rparr>)"
  using assms by (simp add: computeStreamLimits_def limits_loop_empty_last disjoint_check_def)

lemma limits_loop_after_empty:
  "limits_loop m (pre @ [] # suf) st en = limits_loop m suf 0 (Fin 0)"
  by (simp add: limits_loop_append split: prod.splits)

lemma fold_min_Min: "fold min xs (a::real) = Min (insert a (set xs))"
proof -
  have "insert a (set xs) = set (a # xs)" by simp
  then show ?thesis by (simp only: Min.set_eq_fold)
qed

lemma limits_loop_snd_ends:
  assumes "\<forall>ix\<in>set ixs. ix \<noteq> []"
  shows "snd (limits_loop m ixs st en) = fold (\<lambda>x a. ext_min a x) (window_ends m ixs) en"
  using assms limits_loop_snd_live [of m ixs st en] limits_loop_snd_static [of m ixs st en]
  by (simp add: window_ends_def)

lemma computeStreamLimits_after_empty:
  assumes "manifestInfo s = Some m" and "\<forall>ix\<in>set suf. ix \<noteq> []"
  shows "computeStreamLimits s (pre @ [] # suf) = Inr (capped_window m suf)"
proof -
  obtain st en where l: "limits_loop m suf 0 (Fin 0) = (st, en)"
    by (cases "limits_loop m suf 0 (Fin 0)")
  from l limits_loop_fst [OF assms(2), of m 0 "Fin 0"] have st: "st = window_start suf"
    by (simp add: window_start_fold)
  from l limits_loop_snd_ends [OF assms(2), of m 0 "Fin 0"]
  have en: "en = Fin (Min (insert 0 (set (window_ends m suf))))"
    by (simp add: fold_ext_min_Fin fold_min_Min)
  show ?thesis
    using assms(1) l st en
    by (simp add: computeStreamLimits_def limits_loop_after_empty capped_window_def
        disjoint_check_def)
qed

lemma capped_window_late_start:
  assumes "ix \<in> set suf" and "0 < startTime (hd ix)"
  shows "capped_window m suf = None"
proof -
  have a: "startTime (hd ix) \<le> window_start suf"
    unfolding window_start_def using assms(1) by (intro Max_ge) auto
  have b: "Min (insert 0 (set (window_ends m suf))) \<le> 0"
    by (intro Min_le) auto
  from a b assms(2) have "window_start suf > Min (insert 0 (set (window_ends m suf)))"
    by linarith
  then show ?thesis
    by (simp only: capped_window_def if_True)
qed

lemma capped_window_zero:
  assumes "\<forall>ix\<in>set suf. startTime (hd ix) \<le> 0" and "\<forall>e\<in>set (window_ends m suf). 0 \<le> e"
  shows "capped_window m suf = Some \<lparr>limits_start = 0, limits_end = 0\<rparr>"
proof -
  have a: "window_start suf = 0"
    unfolding window_start_def using assms(1)
    by (intro antisym Max.boundedI Max_ge) auto
  have b: "Min (insert 0 (set (window_ends m suf))) = 0"
    using assms(2) by (intro antisym Min.boundedI Min_le) auto
  show ?thesis
    unfolding capped_window_def a b by simp
qed

lemma empty_index_split:
  assumes "[] \<in> set ixs"
  shows "\<exists>pre suf. ixs = pre @ [] # suf \<and> (\<forall>ix\<in>set suf. ix \<noteq> [])"
  using split_list_last [OF assms] by metis

text \<open>
  C1 (as amended). For indexes that all have a reference, the stream limits are the play
  window: start the greatest first start time, and at least 0; end, for live content, the
  least of \<open>max 0 (last start - minBufferTime)\<close>, else the least end time of the last
  references, with the first period's duration when none has one; null when no end is
  found or start exceeds end. An empty index does not give null by itself: it sets start and
  end back to 0 and the loop goes on. So when some index is empty, the list splits at its
  last empty index, and only the indexes after that one count: start is the greatest of 0
  and their first start times, end the least of 0 and their ends, and the result is null
  when start exceeds end. It is null when an index after the last empty one starts after 0,
  and the limits are 0 and 0 when none of them starts after 0 or ends before 0, as when the
  empty index is the last.
\<close>

theorem computeStreamLimits_play_window:
  assumes "manifestInfo s = Some m" and "periodInfos m \<noteq> []"
  shows "((\<forall>ix\<in>set ixs. ix \<noteq> []) \<longrightarrow> computeStreamLimits s ixs = Inr (play_window m ixs))
       \<and> ([] \<in> set ixs \<longrightarrow> (\<exists>pre suf. ixs = pre @ [] # suf \<and> (\<forall>ix\<in>set suf. ix \<noteq> [])))
       \<and> ((\<forall>ix\<in>set suf. ix \<noteq> []) \<longrightarrow>
            computeStreamLimits s (pre @ [] # suf) = Inr (capped_window m suf)
          \<and> ((\<exists>ix\<in>set suf. 0 < startTime (hd ix)) \<longrightarrow>
               computeStreamLimits s (pre @ [] # suf) = Inr None)
          \<and> ((\<forall>ix\<in>set suf. startTime (hd ix) \<le> 0) \<and> (\<forall>e\<in>set (window_ends m suf). 0 \<le> e) \<longrightarrow>
               computeStreamLimits s (pre @ [] # suf)
                 = Inr (Some \<lparr>limits_start = 0, limits_end = 0\<rparr>)))"
  using assms computeStreamLimits_nonempty [of s m ixs]
    computeStreamLimits_after_empty [of s m suf pre] empty_index_split [of ixs]
    capped_window_late_start [of _ suf m] capped_window_zero [of suf m]
  by (auto simp del: split_paired_Ex)

theorem computeStreamLimits_play_window_witness:
  "computeStreamLimits (StreamVideoSource (Some (example_manifest False None [])))
       [[seg 0 6, seg 6 12], [seg 1 5, seg 5 11]]
     = Inr (Some \<lparr>limits_start = 1, limits_end = 11\<rparr>)
   \<and> computeStreamLimits (StreamVideoSource (Some (example_manifest False None [])))
       [[seg 5 6, seg 6 12], [seg 1 2, seg 2 4]]
     = Inr None
   \<and> computeStreamLimits (StreamVideoSource (Some (example_manifest False None [])))
       ([] @ [] # [[seg 5 10]])
     = Inr None
   \<and> computeStreamLimits (StreamVideoSource (Some (example_manifest False None [])))
       ([[seg 0 6, seg 6 12]] @ [] # [[seg 0 10]])
     = Inr (Some \<lparr>limits_start = 0, limits_end = 0\<rparr>)
   \<and> computeStreamLimits (StreamVideoSource (Some (example_manifest False None [])))
       ([[seg 0 6, seg 6 12]] @ [] # [])
     = Inr (Some \<lparr>limits_start = 0, limits_end = 0\<rparr>)"
proof -
  let ?m = "example_manifest False None []"
  let ?s = "StreamVideoSource (Some ?m)"
  have m: "manifestInfo ?s = Some ?m"
    by (simp add: StreamVideoSource_def)
  have p: "periodInfos ?m \<noteq> []"
    by (simp add: example_manifest_def)
  note T = computeStreamLimits_play_window [OF m p]
  have a: "\<forall>ix\<in>set [[seg 0 6, seg 6 12], [seg 1 5, seg 5 11]]. ix \<noteq> []" by simp
  have b: "\<forall>ix\<in>set [[seg 5 6, seg 6 12], [seg 1 2, seg 2 4]]. ix \<noteq> []" by simp
  have w1: "play_window ?m [[seg 0 6, seg 6 12], [seg 1 5, seg 5 11]]
      = Some \<lparr>limits_start = 1, limits_end = 11\<rparr>"
    by (simp add: play_window_def window_end_def window_start_def example_manifest_def seg_def
        map_filter_simps)
  have w2: "play_window ?m [[seg 5 6, seg 6 12], [seg 1 2, seg 2 4]] = None"
    by (simp add: play_window_def window_end_def window_start_def example_manifest_def seg_def
        map_filter_simps)
  from T [where ixs = "[[seg 0 6, seg 6 12], [seg 1 5, seg 5 11]]"] a w1
  have 1: "computeStreamLimits ?s [[seg 0 6, seg 6 12], [seg 1 5, seg 5 11]]
      = Inr (Some \<lparr>limits_start = 1, limits_end = 11\<rparr>)"
    by simp
  from T [where ixs = "[[seg 5 6, seg 6 12], [seg 1 2, seg 2 4]]"] b w2
  have 2: "computeStreamLimits ?s [[seg 5 6, seg 6 12], [seg 1 2, seg 2 4]] = Inr None"
    by simp
  have c: "(\<forall>ix\<in>set [[seg 5 10]]. ix \<noteq> []) \<and> (\<exists>ix\<in>set [[seg 5 10]]. 0 < startTime (hd ix))"
    by (simp add: seg_def)
  from T [where suf = "[[seg 5 10]]" and pre = "[]"] c
  have 3: "computeStreamLimits ?s ([] @ [] # [[seg 5 10]]) = Inr None"
    by blast
  have d: "(\<forall>ix\<in>set [[seg 0 10]]. ix \<noteq> []) \<and> (\<forall>ix\<in>set [[seg 0 10]]. startTime (hd ix) \<le> 0)
      \<and> (\<forall>e\<in>set (window_ends ?m [[seg 0 10]]). 0 \<le> e)"
    by (simp add: seg_def window_ends_def example_manifest_def map_filter_simps)
  from T [where suf = "[[seg 0 10]]" and pre = "[[seg 0 6, seg 6 12]]"] d
  have 4: "computeStreamLimits ?s ([[seg 0 6, seg 6 12]] @ [] # [[seg 0 10]])
      = Inr (Some \<lparr>limits_start = 0, limits_end = 0\<rparr>)"
    by blast
  have e: "(\<forall>ix\<in>set ([]::segment_index list). ix \<noteq> [])
      \<and> (\<forall>ix\<in>set ([]::segment_index list). startTime (hd ix) \<le> 0)
      \<and> (\<forall>e\<in>set (window_ends ?m []). 0 \<le> e)"
    by (simp add: window_ends_def map_filter_simps)
  from T [where suf = "[]" and pre = "[[seg 0 6, seg 6 12]]"] e
  have 5: "computeStreamLimits ?s ([[seg 0 6, seg 6 12]] @ [] # [])
      = Inr (Some \<lparr>limits_start = 0, limits_end = 0\<rparr>)"
    by blast
  from 1 2 3 4 5 show ?thesis by blast
qed

theorem computeStreamLimits_empty_index_counterexample:
  "[] \<in> set [[seg 0 6, seg 6 12], []]
   \<and> computeStreamLimits (StreamVideoSource (Some (example_manifest False None [])))
        [[seg 0 6, seg 6 12], []]
      = Inr (Some \<lparr>limits_start = 0, limits_end = 0\<rparr>)
   \<and> computeStreamLimits (StreamVideoSource (Some (example_manifest False None [])))
        [[seg 0 6, seg 6 12], []]
      \<noteq> Inr None"
  by (simp add: computeStreamLimits_def StreamVideoSource_def example_manifest_def seg_def
      disjoint_check_def)

section \<open>Loading\<close>

text \<open>
  C3 (as amended). A loaded source rejects \<open>load\<close>. Otherwise \<open>load\<close> rejects when
  the manifest is null or has no period, and, after processing, when no period is left
  or the first period has no stream set (the language is recorded by then); in every
  other case it records the language, marks the source loaded and resolves, and a
  further \<open>load\<close> is rejected.
\<close>

theorem load_outcome:
  "(loaded s \<longrightarrow>
      load process l s = (Rejected (stream_error ''Cannot call load() right now.''), s))
   \<and> (\<not> loaded s \<and> (manifestInfo s = None \<or> manifestInfo s = Some m \<and> periodInfos m = []) \<longrightarrow>
      load process l s = (Rejected (stream_error ''The manifest does not specify any content.''), s))
   \<and> (\<not> loaded s \<and> manifestInfo s = Some m \<and> periodInfos m \<noteq> []
        \<and> (process (periodInfos m) = [] \<or> streamSetInfos (hd (process (periodInfos m))) = []) \<longrightarrow>
      load process l s =
        (Rejected (stream_error
           ''The manifest specifies content that cannot be displayed on this browser/platform.''),
         s\<lparr>lang_pref := l, manifestInfo := Some (m\<lparr>periodInfos := process (periodInfos m)\<rparr>)\<rparr>))
   \<and> (\<not> loaded s \<and> manifestInfo s = Some m \<and> periodInfos m \<noteq> []
        \<and> process (periodInfos m) \<noteq> [] \<and> streamSetInfos (hd (process (periodInfos m))) \<noteq> [] \<longrightarrow>
      load process l s =
        (Resolved (),
         s\<lparr>lang_pref := l, manifestInfo := Some (m\<lparr>periodInfos := process (periodInfos m)\<rparr>),
           loaded := True\<rparr>)
      \<and> load process' l' (snd (load process l s))
        = (Rejected (stream_error ''Cannot call load() right now.''), snd (load process l s)))"
  by (auto simp: load_def Let_def split: option.splits list.splits)

theorem load_outcome_witness:
  "fst (load id ''en'' (StreamVideoSource (Some (example_manifest False None [example_audio]))))
     = Resolved ()
   \<and> loaded (snd (load id ''en'' (StreamVideoSource (Some (example_manifest False None [example_audio])))))
   \<and> lang_pref (snd (load id ''en'' (StreamVideoSource (Some (example_manifest False None [example_audio])))))
     = ''en''
   \<and> fst (load id ''fr''
        (snd (load id ''en'' (StreamVideoSource (Some (example_manifest False None [example_audio]))))))
     = Rejected (stream_error ''Cannot call load() right now.'')
   \<and> fst (load id ''en'' (StreamVideoSource (Some (example_manifest False None []))))
     = Rejected (stream_error
         ''The manifest specifies content that cannot be displayed on this browser/platform.'')
   \<and> fst (load id ''en'' (StreamVideoSource None))
     = Rejected (stream_error ''The manifest does not specify any content.'')"
proof -
  let ?s = "StreamVideoSource (Some (example_manifest False None [example_audio]))"
  let ?t = "StreamVideoSource (Some (example_manifest False None []))"
  have a: "\<not> loaded ?s \<and> manifestInfo ?s = Some (example_manifest False None [example_audio])
      \<and> periodInfos (example_manifest False None [example_audio]) \<noteq> []
      \<and> id (periodInfos (example_manifest False None [example_audio])) \<noteq> []
      \<and> streamSetInfos (hd (id (periodInfos (example_manifest False None [example_audio])))) \<noteq> []"
    by (simp add: StreamVideoSource_def example_manifest_def)
  have b: "\<not> loaded ?t \<and> manifestInfo ?t = Some (example_manifest False None [])
      \<and> periodInfos (example_manifest False None []) \<noteq> []
      \<and> (id (periodInfos (example_manifest False None [])) = []
         \<or> streamSetInfos (hd (id (periodInfos (example_manifest False None [])))) = [])"
    by (simp add: StreamVideoSource_def example_manifest_def)
  have c: "\<not> loaded (StreamVideoSource None)
      \<and> (manifestInfo (StreamVideoSource None) = None
         \<or> manifestInfo (StreamVideoSource None) = Some (example_manifest False None [])
           \<and> periodInfos (example_manifest False None []) = [])"
    by (simp add: StreamVideoSource_def)
  note L1 = load_outcome [of ?s id "''en''" "example_manifest False None [example_audio]" id "''fr''"]
  note L2 = load_outcome [of ?t id "''en''" "example_manifest False None []" id "''fr''"]
  note L3 = load_outcome [of "StreamVideoSource None" id "''en''" "example_manifest False None []" id "''fr''"]
  from L1 a have 1: "load id ''en'' ?s =
           (Resolved (),
            ?s\<lparr>lang_pref := ''en'', manifestInfo := Some ((example_manifest False None [example_audio])
                \<lparr>periodInfos := id (periodInfos (example_manifest False None [example_audio]))\<rparr>),
              loaded := True\<rparr>)
           \<and> load id ''fr'' (snd (load id ''en'' ?s))
             = (Rejected (stream_error ''Cannot call load() right now.''), snd (load id ''en'' ?s))"
    by blast
  from L2 b have 2: "load id ''en'' ?t =
        (Rejected (stream_error
           ''The manifest specifies content that cannot be displayed on this browser/platform.''),
         ?t\<lparr>lang_pref := ''en'', manifestInfo := Some ((example_manifest False None [])
                \<lparr>periodInfos := id (periodInfos (example_manifest False None []))\<rparr>)\<rparr>)"
    by blast
  from L3 c have 3: "load id ''en'' (StreamVideoSource None)
     = (Rejected (stream_error ''The manifest does not specify any content.''), StreamVideoSource None)"
    by blast
  from 1 have c1: "fst (load id ''en'' ?s) = Resolved ()"
    and c2: "loaded (snd (load id ''en'' ?s))"
    and c3: "lang_pref (snd (load id ''en'' ?s)) = ''en''"
    by simp_all
  have c4: "fst (load id ''fr'' (snd (load id ''en'' ?s)))
      = Rejected (stream_error ''Cannot call load() right now.'')"
    using arg_cong [OF conjunct2 [OF 1], of fst] by (simp only: fst_conv)
  from 2 have c5: "fst (load id ''en'' ?t) = Rejected (stream_error
         ''The manifest specifies content that cannot be displayed on this browser/platform.'')"
    by simp
  from 3 have c6: "fst (load id ''en'' (StreamVideoSource None))
     = Rejected (stream_error ''The manifest does not specify any content.'')"
    by simp
  from c1 c2 c3 c4 c5 c6 show ?thesis by blast
qed

theorem load_first_period_counterexample:
  "streamSetInfos (periodInfos
      \<lparr>live = False, minBufferTime = 2, updatePeriod = None,
       periodInfos = [\<lparr>duration = Some 60, streamSetInfos = []\<rparr>,
                      \<lparr>duration = Some 60, streamSetInfos = [example_audio]\<rparr>]\<rparr> ! 1) \<noteq> []
   \<and> fst (load id ''en'' (StreamVideoSource (Some
      \<lparr>live = False, minBufferTime = 2, updatePeriod = None,
       periodInfos = [\<lparr>duration = Some 60, streamSetInfos = []\<rparr>,
                      \<lparr>duration = Some 60, streamSetInfos = [example_audio]\<rparr>]\<rparr>)))
     = Rejected (stream_error
         ''The manifest specifies content that cannot be displayed on this browser/platform.'')"
  by (simp add: load_def StreamVideoSource_def)

section \<open>Operations on a source that is not loaded\<close>

text \<open>
  C9 (as amended). On a source that is not loaded, \<open>attach\<close> rejects its promise with
  an error and leaves the state; \<open>selectConfigurations\<close> and \<open>setRestrictions\<close>
  return without an error, having logged a warning and changed nothing else.
\<close>

theorem not_loaded_operations:
  assumes "\<not> loaded s"
  shows "attach v s = (Rejected (stream_error ''Cannot call attach() right now.''), s)
       \<and> selectConfigurations lm lo hi configs s
           = Inr (s\<lparr>warnings := warnings s @ [''Cannot call selectConfigurations() right now.'']\<rparr>)
       \<and> setRestrictions r s
           = Inr (s\<lparr>warnings := warnings s @ [''Cannot call setRestrictions() right now.'']\<rparr>)"
  using assms by (simp add: attach_def selectConfigurations_def setRestrictions_def)

theorem not_loaded_operations_witness:
  "attach \<lparr>playbackRate = 1, currentTime = 0\<rparr> (StreamVideoSource None)
     = (Rejected (stream_error ''Cannot call attach() right now.''), StreamVideoSource None)
   \<and> selectConfigurations primary_match 0 2 [] (StreamVideoSource None)
     = Inr ((StreamVideoSource None)
         \<lparr>warnings := [''Cannot call selectConfigurations() right now.'']\<rparr>)
   \<and> setRestrictions \<lparr>maxWidth = None, maxHeight = Some 720, maxBandwidth = None,
        minBandwidth = None\<rparr> (StreamVideoSource None)
     = Inr ((StreamVideoSource None)\<lparr>warnings := [''Cannot call setRestrictions() right now.'']\<rparr>)"
proof -
  have "\<not> loaded (StreamVideoSource None)" by (simp add: StreamVideoSource_def)
  from not_loaded_operations [OF this, of "\<lparr>playbackRate = 1, currentTime = 0\<rparr>" primary_match 0 2 "[]"
      "\<lparr>maxWidth = None, maxHeight = Some 720, maxBandwidth = None, minBandwidth = None\<rparr>"]
  show ?thesis by (simp add: StreamVideoSource_def)
qed

theorem setRestrictions_not_loaded_counterexample:
  "\<not> loaded (StreamVideoSource None)
   \<and> selectConfigurations primary_match 0 2 [] (StreamVideoSource None)
     = Inr ((StreamVideoSource None)
         \<lparr>warnings := [''Cannot call selectConfigurations() right now.'']\<rparr>)
   \<and> setRestrictions \<lparr>maxWidth = None, maxHeight = Some 720, maxBandwidth = None,
        minBandwidth = None\<rparr> (StreamVideoSource None)
     = Inr ((StreamVideoSource None)\<lparr>warnings := [''Cannot call setRestrictions() right now.'']\<rparr>)"
  by (simp add: selectConfigurations_def setRestrictions_def StreamVideoSource_def)

section \<open>Track listings\<close>

lemma getVideoTracks_ids:
  "mm_get (streamSetsByType s) ''video'' = Some sets \<Longrightarrow>
     map vt_id (getVideoTracks s)
       = map uniqueId (filter enabled (concat (map streamInfos sets)))"
  by (simp add: getVideoTracks_def map_concat filter_concat comp_def)

lemma getVideoTracks_active:
  "t \<in> set (getVideoTracks s) \<Longrightarrow> vt_active t \<longleftrightarrow> vt_id t = activeId s ''video''"
  by (auto simp: getVideoTracks_def split: option.splits)

lemma getAudioTracks_ids:
  "mm_get (streamSetsByType s) ''audio'' = Some sets \<Longrightarrow>
     map at_id (getAudioTracks s) = map uniqueId (concat (map streamInfos sets))"
  by (simp add: getAudioTracks_def map_concat comp_def)

lemma getAudioTracks_active:
  "t \<in> set (getAudioTracks s) \<Longrightarrow> at_active t \<longleftrightarrow> at_id t = activeId s ''audio''"
  by (auto simp: getAudioTracks_def split: option.splits)

text \<open>
  C2. After a load, a selection of the audio set and a lower bound of 100000 on the
  bandwidth, the first audio stream info (64000) is not enabled, and the audio listing
  still has a track for it.
\<close>

theorem getAudioTracks_lists_disabled:
  "(case selectConfigurations primary_match 0 2
           [(''audio'', [\<lparr>cfg_id = 1, basicMimeType = ''audio/mp4''\<rparr>])]
           (snd (load id ''en'' (StreamVideoSource (Some (example_manifest False None [example_audio]))))) of
      Inl e \<Rightarrow> False
    | Inr s2 \<Rightarrow>
        (case setRestrictions \<lparr>maxWidth = None, maxHeight = None, maxBandwidth = None,
                 minBandwidth = Some 100000\<rparr> s2 of
           Inl e \<Rightarrow> False
         | Inr s3 \<Rightarrow>
             map_option (map (\<lambda>st. map (\<lambda>si. (uniqueId si, enabled si)) (streamInfos st)))
                 (mm_get (streamSetsByType s3) ''audio'')
               = Some [[(1, False), (2, True)]]
             \<and> map at_id (getAudioTracks s3) = [1, 2]))"
  by (simp add: load_def StreamVideoSource_def example_manifest_def example_audio_def
      example_info_def selectConfigurations_def mm_push_def mm_get_def sort_block_def
      sortByLanguage_def primary_match_def move_to_front_def setRestrictions_def
      restrict_set_def restrict_def truthy_def js_num_def getAudioTracks_def activeId_def
      seg_def Let_def)

section \<open>The initial stream infos\<close>

lemma video_loop_found:
  "\<exists>si\<in>set sis. Some (uniqueId si) = trackId \<Longrightarrow>
     \<exists>i<length sis. video_loop trackId sis cur = Some (sis ! i)
        \<and> Some (uniqueId (sis ! i)) = trackId
        \<and> (\<forall>j<i. Some (uniqueId (sis ! j)) \<noteq> trackId)"
proof (induction sis arbitrary: cur)
  case Nil
  then show ?case by simp
next
  case (Cons si sis)
  show ?case
  proof (cases "Some (uniqueId si) = trackId")
    case True
    then show ?thesis by (intro exI [of _ 0]) simp
  next
    case False
    with Cons.prems have "\<exists>x\<in>set sis. Some (uniqueId x) = trackId" by auto
    from Cons.IH [OF this, of "Some si"] obtain i where
      i: "i < length sis" "video_loop trackId sis (Some si) = Some (sis ! i)"
         "Some (uniqueId (sis ! i)) = trackId" "\<forall>j<i. Some (uniqueId (sis ! j)) \<noteq> trackId"
      by blast
    have "\<forall>j<Suc i. Some (uniqueId ((si # sis) ! j)) \<noteq> trackId"
      using i(4) False by (auto simp: nth_Cons' less_Suc_eq_0_disj)
    with i False show ?thesis by (intro exI [of _ "Suc i"]) simp
  qed
qed

lemma select_loop_other:
  "k \<notin> contentType ` set sts \<Longrightarrow> map_of (select_loop trackId sts sel) k = map_of sel k"
  by (induction sts arbitrary: sel) (auto simp: update_conv')

lemma select_loop_distinct:
  "distinct (map contentType sts) \<Longrightarrow> st \<in> set sts \<Longrightarrow>
     map_of (select_loop trackId sts sel) (contentType st) = Some (initial_info trackId st)"
proof (induction sts arbitrary: sel)
  case Nil
  then show ?case by simp
next
  case (Cons a sts)
  show ?case
  proof (cases "st = a")
    case True
    with Cons.prems(1) have "contentType st \<notin> contentType ` set sts" by auto
    with True show ?thesis by (simp add: select_loop_other update_conv')
  next
    case False
    with Cons.prems have "st \<in> set sts" "distinct (map contentType sts)" by auto
    with Cons.IH show ?thesis by simp
  qed
qed

lemma selected_sets:
  assumes wf: "\<forall>ty sets. mm_get (streamSetsByType s) ty = Some sets
            \<longrightarrow> (\<exists>st rest. sets = st # rest \<and> contentType st = ty)"
  shows "\<exists>sel. those (selectedStreamSetInfos s) = Some sel \<and> distinct (map contentType sel)
     \<and> (\<forall>ty \<in> {''audio'', ''video'', ''text''}. \<forall>st rest.
           mm_get (streamSetsByType s) ty = Some (st # rest) \<longrightarrow> st \<in> set sel)"
proof -
  have h: "\<And>ty sets. mm_get (streamSetsByType s) ty = Some sets
      \<Longrightarrow> \<exists>st rest. sets = st # rest \<and> js_nth sets 0 = Some st \<and> contentType st = ty"
    using wf by (fastforce simp: js_nth_def)
  show ?thesis
    by (cases "mm_get (streamSetsByType s) ''audio''"; cases "mm_get (streamSetsByType s) ''video''";
        cases "mm_get (streamSetsByType s) ''text''")
       (auto simp: selectedStreamSetInfos_def dest!: h)
qed

text \<open>
  C5. Let every list of \<open>streamSetsByType\<close> start with a set of the content type it is
  stored under. For a type among audio, video and text whose list starts with the set
  \<open>st\<close>, the stream info selected for the type comes from \<open>st\<close>: for video the first
  one of the id that the ABR manager gave, when \<open>st\<close> has that id; for audio the one at
  index \<open>n div 2\<close> of the \<open>n\<close> stream infos; for text the first one.
\<close>

theorem selectInitial_choice:
  assumes wf: "\<forall>ty sets. mm_get (streamSetsByType s) ty = Some sets
            \<longrightarrow> (\<exists>st rest. sets = st # rest \<and> contentType st = ty)"
      and ty: "ty \<in> {''audio'', ''video'', ''text''}"
      and st: "mm_get (streamSetsByType s) ty = Some (st # rest)"
      and ne: "streamInfos st \<noteq> []"
  shows "\<exists>sel. selectInitial trackId s = Inr sel
      \<and> (ty = ''video'' \<and> (\<exists>si\<in>set (streamInfos st). Some (uniqueId si) = trackId) \<longrightarrow>
           (\<exists>i<length (streamInfos st). map_of sel ty = Some (Some (streamInfos st ! i))
               \<and> Some (uniqueId (streamInfos st ! i)) = trackId
               \<and> (\<forall>j<i. Some (uniqueId (streamInfos st ! j)) \<noteq> trackId)))
      \<and> (ty = ''audio'' \<longrightarrow>
           map_of sel ty = Some (Some (streamInfos st ! (length (streamInfos st) div 2))))
      \<and> (ty = ''text'' \<longrightarrow> map_of sel ty = Some (Some (streamInfos st ! 0)))"
proof -
  from selected_sets [OF wf] obtain sets where
    sets: "those (selectedStreamSetInfos s) = Some sets" "distinct (map contentType sets)"
      "\<forall>ty \<in> {''audio'', ''video'', ''text''}. \<forall>st rest.
           mm_get (streamSetsByType s) ty = Some (st # rest) \<longrightarrow> st \<in> set sets"
    by blast
  from sets(3) ty st have mem: "st \<in> set sets" by blast
  from wf st have ct: "contentType st = ty" by fastforce
  let ?sel = "selectStreamInfos trackId sets"
  have sel: "selectInitial trackId s = Inr ?sel"
    using sets(1) by (simp add: selectInitial_def)
  have m: "map_of ?sel ty = Some (initial_info trackId st)"
    using select_loop_distinct [OF sets(2) mem, of trackId "[]"] ct
    by (simp add: selectStreamInfos_def)
  have v: "ty = ''video'' \<and> (\<exists>si\<in>set (streamInfos st). Some (uniqueId si) = trackId) \<longrightarrow>
           (\<exists>i<length (streamInfos st). map_of ?sel ty = Some (Some (streamInfos st ! i))
               \<and> Some (uniqueId (streamInfos st ! i)) = trackId
               \<and> (\<forall>j<i. Some (uniqueId (streamInfos st ! j)) \<noteq> trackId))"
  proof
    assume a: "ty = ''video'' \<and> (\<exists>si\<in>set (streamInfos st). Some (uniqueId si) = trackId)"
    then have "\<exists>si\<in>set (streamInfos st). Some (uniqueId si) = trackId" by simp
    from video_loop_found [OF this, of "js_nth (streamInfos st) 0"] a ct m
    show "\<exists>i<length (streamInfos st). map_of ?sel ty = Some (Some (streamInfos st ! i))
               \<and> Some (uniqueId (streamInfos st ! i)) = trackId
               \<and> (\<forall>j<i. Some (uniqueId (streamInfos st ! j)) \<noteq> trackId)"
      by (auto simp: initial_info_def)
  qed
  have au: "ty = ''audio'' \<longrightarrow>
           map_of ?sel ty = Some (Some (streamInfos st ! (length (streamInfos st) div 2)))"
    using m ct ne by (auto simp: initial_info_def js_nth_def)
  have tx: "ty = ''text'' \<longrightarrow> map_of ?sel ty = Some (Some (streamInfos st ! 0))"
    using m ct ne by (auto simp: initial_info_def js_nth_def)
  from sel v au tx show ?thesis by blast
qed

theorem selectInitial_choice_witness:
  "(\<exists>sel. selectInitial (Some 11) (example_source (example_manifest False None [])) = Inr sel
       \<and> map_of sel ''video'' = Some (Some (example_info 11 3000000)))
   \<and> (\<exists>sel. selectInitial (Some 11) (example_source (example_manifest False None [])) = Inr sel
       \<and> map_of sel ''audio'' = Some (Some (example_info 2 128000)))
   \<and> (\<exists>sel. selectInitial (Some 11) (example_source (example_manifest False None [])) = Inr sel
       \<and> map_of sel ''text'' = Some (Some (example_info 20 0)))"
proof -
  let ?s = "example_source (example_manifest False None [])"
  have wf: "\<forall>ty sets. mm_get (streamSetsByType ?s) ty = Some sets
            \<longrightarrow> (\<exists>st rest. sets = st # rest \<and> contentType st = ty)"
    by (auto simp: mm_get_def example_source_def example_video_def example_audio_def
        example_text_def split: if_splits)
  have v: "mm_get (streamSetsByType ?s) ''video'' = Some (example_video # [])"
    and a: "mm_get (streamSetsByType ?s) ''audio'' = Some (example_audio # [])"
    and t: "mm_get (streamSetsByType ?s) ''text'' = Some (example_text # [])"
    by (simp_all add: mm_get_def example_source_def)
  have ne: "streamInfos example_video \<noteq> []" "streamInfos example_audio \<noteq> []"
      "streamInfos example_text \<noteq> []"
    by (simp_all add: example_video_def example_audio_def example_text_def)
  have ex: "\<exists>si\<in>set (streamInfos example_video). Some (uniqueId si) = Some 11"
    by (simp add: example_video_def example_info_def)
  have first: "\<And>i. i < length (streamInfos example_video)
      \<Longrightarrow> Some (uniqueId (streamInfos example_video ! i)) = Some 11
      \<Longrightarrow> streamInfos example_video ! i = example_info 11 3000000"
    by (auto simp: example_video_def example_info_def nth_Cons' less_Suc_eq_0_disj numeral_3_eq_3
        split: if_splits)
  from selectInitial_choice [OF wf _ v ne(1), of "Some 11"] ex first
  have 1: "\<exists>sel. selectInitial (Some 11) ?s = Inr sel
       \<and> map_of sel ''video'' = Some (Some (example_info 11 3000000))"
    by (auto simp del: example_info_def)
  from selectInitial_choice [OF wf _ a ne(2), of "Some 11"]
  have 2: "\<exists>sel. selectInitial (Some 11) ?s = Inr sel
       \<and> map_of sel ''audio'' = Some (Some (example_info 2 128000))"
    by (auto simp: example_audio_def)
  from selectInitial_choice [OF wf _ t ne(3), of "Some 11"]
  have 3: "\<exists>sel. selectInitial (Some 11) ?s = Inr sel
       \<and> map_of sel ''text'' = Some (Some (example_info 20 0))"
    by (auto simp: example_text_def)
  from 1 2 3 show ?thesis by blast
qed

section \<open>Failure of the initial start\<close>

lemma message_stream_error: "message (stream_error msg) = msg"
  by (simp add: stream_error_def)

lemma catch_start_not_aborted:
  assumes "manifestInfo s = Some m" and "etype e \<noteq> Some ''aborted''"
  shows "catch_start e s =
     (if live m then
        (Resolved (),
         (case updatePeriod m of
            None \<Rightarrow> s\<lparr>warnings := warnings s @ [message e]\<rparr>
          | Some p \<Rightarrow> s\<lparr>warnings := warnings s @ [message e],
                        updateTimer := Some (1000 * max p 3)\<rparr>))
      else (Rejected e, s))"
  using assms
  by (simp add: catch_start_def setUpdateTimer_def MIN_UPDATE_INTERVAL_def split: option.splits)

lemma start_with_indexes_not_available:
  assumes "\<not> list_all (\<lambda>ix. length ix \<noteq> 0) ixs \<or> computeStreamLimits s ixs = Inr None"
  shows "start_with_indexes asb infos ixs s = Inl (stream_error ''Some streams are not available.'', s)"
  using assms by (auto simp: start_with_indexes_def)

text \<open>
  C4 (as amended). Let the initial stream infos be selected and their segment indexes be
  there, one of them empty or the stream limits null. For a static manifest the promise
  of \<open>createAndStartStreams\<close> rejects with the error. For a live manifest it
  resolves, the error is logged, and the update timer is armed with
  \<open>max updatePeriod 3\<close> seconds when the manifest has an update period; with none, no
  timer is armed. When a segment index fails with an aborted error, the promise resolves
  and the state is as before, for static and live alike.
\<close>

theorem createAndStartStreams_not_available:
  assumes m: "manifestInfo s = Some m"
      and sel: "selectInitial trackId s = Inr selected"
      and infos: "those (map snd selected) = Some infos"
  shows "(collect (map segmentIndexSource infos) = Inr ixs
          \<and> (\<not> list_all (\<lambda>ix. length ix \<noteq> 0) ixs \<or> computeStreamLimits s ixs = Inr None) \<longrightarrow>
            (\<not> live m \<longrightarrow>
               createAndStartStreams trackId asb s
                 = Inr (Rejected (stream_error ''Some streams are not available.''), s))
          \<and> (live m \<longrightarrow>
               createAndStartStreams trackId asb s
                 = Inr (Resolved (),
                     (case updatePeriod m of
                        None \<Rightarrow> s\<lparr>warnings := warnings s @ [''Some streams are not available.'']\<rparr>
                      | Some p \<Rightarrow>
                          s\<lparr>warnings := warnings s @ [''Some streams are not available.''],
                            updateTimer := Some (1000 * max p 3)\<rparr>))))
       \<and> (collect (map segmentIndexSource infos) = Inl e \<and> etype e = Some ''aborted'' \<longrightarrow>
            createAndStartStreams trackId asb s = Inr (Resolved (), s))"
proof (intro conjI impI)
  assume a: "collect (map segmentIndexSource infos) = Inr ixs
          \<and> (\<not> list_all (\<lambda>ix. length ix \<noteq> 0) ixs \<or> computeStreamLimits s ixs = Inr None)"
  then have sw: "start_with_indexes asb (zip (map fst selected) infos) ixs s
      = Inl (stream_error ''Some streams are not available.'', s)"
    by (intro start_with_indexes_not_available) simp
  have na: "etype (stream_error ''Some streams are not available.'') \<noteq> Some ''aborted''"
    by (simp add: stream_error_def)
  have c: "createAndStartStreams trackId asb s
      = Inr (catch_start (stream_error ''Some streams are not available.'') s)"
    using a sel infos sw by (simp add: createAndStartStreams_def)
  {
    assume "\<not> live m"
    with c catch_start_not_aborted [OF m na]
    show "createAndStartStreams trackId asb s
        = Inr (Rejected (stream_error ''Some streams are not available.''), s)"
      by simp
  }
  {
    assume "live m"
    with c catch_start_not_aborted [OF m na]
    show "createAndStartStreams trackId asb s
                 = Inr (Resolved (),
                     (case updatePeriod m of
                        None \<Rightarrow> s\<lparr>warnings := warnings s @ [''Some streams are not available.'']\<rparr>
                      | Some p \<Rightarrow>
                          s\<lparr>warnings := warnings s @ [''Some streams are not available.''],
                            updateTimer := Some (1000 * max p 3)\<rparr>))"
      by (simp add: message_stream_error cong: option.case_cong)
  }
next
  assume "collect (map segmentIndexSource infos) = Inl e \<and> etype e = Some ''aborted''"
  with sel infos show "createAndStartStreams trackId asb s = Inr (Resolved (), s)"
    by (simp add: createAndStartStreams_def catch_start_def)
qed

lemma single_audio_selected:
  "selectInitial trackId (single_audio_source m src)
     = Inr [(''audio'', Some ((example_info 1 64000)\<lparr>segmentIndexSource := src\<rparr>))]"
  by (simp add: selectInitial_def selectedStreamSetInfos_def single_audio_source_def mm_get_def
      StreamVideoSource_def js_nth_def selectStreamInfos_def initial_info_def)

theorem createAndStartStreams_not_available_witness:
  "createAndStartStreams None (\<lambda>si. True) (single_audio_source (example_manifest False None []) (Inr []))
     = Inr (Rejected (stream_error ''Some streams are not available.''),
            single_audio_source (example_manifest False None []) (Inr []))
   \<and> createAndStartStreams None (\<lambda>si. True)
        (single_audio_source (example_manifest True (Some 2) []) (Inr []))
     = Inr (Resolved (),
            (single_audio_source (example_manifest True (Some 2) []) (Inr []))
              \<lparr>warnings := [''Some streams are not available.''], updateTimer := Some 3000\<rparr>)
   \<and> createAndStartStreams None (\<lambda>si. True)
        (single_audio_source (example_manifest False None []) (Inl (Error (Some ''aborted'') ''abort'')))
     = Inr (Resolved (),
            single_audio_source (example_manifest False None []) (Inl (Error (Some ''aborted'') ''abort'')))"
proof -
  let ?st = "single_audio_source (example_manifest False None []) (Inr [])"
  let ?lv = "single_audio_source (example_manifest True (Some 2) []) (Inr [])"
  let ?ab = "single_audio_source (example_manifest False None []) (Inl (Error (Some ''aborted'') ''abort''))"
  have m: "manifestInfo ?st = Some (example_manifest False None [])"
      "manifestInfo ?lv = Some (example_manifest True (Some 2) [])"
      "manifestInfo ?ab = Some (example_manifest False None [])"
    by (simp_all add: single_audio_source_def StreamVideoSource_def)
  have t: "\<And>src. those (map snd [(''audio'', Some ((example_info 1 64000)\<lparr>segmentIndexSource := src\<rparr>))])
      = Some [(example_info 1 64000)\<lparr>segmentIndexSource := src\<rparr>]"
    by simp
  have e: "collect (map segmentIndexSource [(example_info 1 64000)\<lparr>segmentIndexSource := Inr []\<rparr>])
        = Inr [[]]
      \<and> (\<not> list_all (\<lambda>ix. length ix \<noteq> 0) [[]] \<or> computeStreamLimits ?st [[]] = Inr None)"
      "collect (map segmentIndexSource [(example_info 1 64000)\<lparr>segmentIndexSource := Inr []\<rparr>])
        = Inr [[]]
      \<and> (\<not> list_all (\<lambda>ix. length ix \<noteq> 0) [[]] \<or> computeStreamLimits ?lv [[]] = Inr None)"
    by simp_all
  have a: "collect (map segmentIndexSource
          [(example_info 1 64000)\<lparr>segmentIndexSource := Inl (Error (Some ''aborted'') ''abort'')\<rparr>])
        = Inl (Error (Some ''aborted'') ''abort'')
      \<and> etype (Error (Some ''aborted'') ''abort'') = Some ''aborted''"
    by simp
  have l: "\<not> live (example_manifest False None [])" "live (example_manifest True (Some 2) [])"
      "updatePeriod (example_manifest True (Some 2) []) = Some 2"
    by (simp_all add: example_manifest_def)
  from createAndStartStreams_not_available [where trackId = None and asb = "\<lambda>si. True"
      and ixs = "[[]]", OF m(1) single_audio_selected t] e(1) l(1)
  have 1: "createAndStartStreams None (\<lambda>si. True) ?st
     = Inr (Rejected (stream_error ''Some streams are not available.''), ?st)"
    by blast
  from createAndStartStreams_not_available [where trackId = None and asb = "\<lambda>si. True"
      and ixs = "[[]]", OF m(2) single_audio_selected t] e(2) l(2)
  have "createAndStartStreams None (\<lambda>si. True) ?lv
     = Inr (Resolved (),
         (case updatePeriod (example_manifest True (Some 2) []) of
            None \<Rightarrow> ?lv\<lparr>warnings := warnings ?lv @ [''Some streams are not available.'']\<rparr>
          | Some p \<Rightarrow>
              ?lv\<lparr>warnings := warnings ?lv @ [''Some streams are not available.''],
                updateTimer := Some (1000 * max p 3)\<rparr>))"
    by blast
  then have 2: "createAndStartStreams None (\<lambda>si. True) ?lv
     = Inr (Resolved (),
            ?lv\<lparr>warnings := [''Some streams are not available.''], updateTimer := Some 3000\<rparr>)"
    by (simp add: l(3) single_audio_source_def StreamVideoSource_def)
  from createAndStartStreams_not_available [where trackId = None and asb = "\<lambda>si. True"
      and e = "Error (Some ''aborted'') ''abort''", OF m(3) single_audio_selected t] a
  have 3: "createAndStartStreams None (\<lambda>si. True) ?ab = Inr (Resolved (), ?ab)"
    by blast
  from 1 2 3 show ?thesis by blast
qed

theorem createAndStartStreams_retry_delay_counterexample:
  "live (example_manifest True (Some 10) [])
   \<and> createAndStartStreams None (\<lambda>si. True)
        (single_audio_source (example_manifest True (Some 10) []) (Inr []))
     = Inr (Resolved (),
            (single_audio_source (example_manifest True (Some 10) []) (Inr []))
              \<lparr>warnings := [''Some streams are not available.''], updateTimer := Some 10000\<rparr>)
   \<and> \<not> (10000 \<le> (3000::real))"
proof -
  let ?s = "single_audio_source (example_manifest True (Some 10) []) (Inr [])"
  have "createAndStartStreams None (\<lambda>si. True) ?s
      = Inr (catch_start (stream_error ''Some streams are not available.'') ?s)"
    by (simp add: createAndStartStreams_def single_audio_selected start_with_indexes_def)
  then show ?thesis
    by (simp add: catch_start_def stream_error_def setUpdateTimer_def MIN_UPDATE_INTERVAL_def
        single_audio_source_def StreamVideoSource_def example_manifest_def)
qed

section \<open>The update timer\<close>








section \<open>The segment index of a template with a duration\<close>

lemma those_map_Some:
  "\<forall>x\<in>set xs. f x \<noteq> None \<Longrightarrow> those (map f xs) = Some (map (\<lambda>x. the (f x)) xs)"
  by (induction xs) auto

lemma generateSegmentReferences_all:
  assumes "0 \<le> n" and "\<forall>k. first \<le> k \<and> k < first + n \<longrightarrow> mk rep k \<noteq> None"
  shows "\<exists>refs. generateSegmentReferences mk rep first (Num (of_int n)) = Some refs
     \<and> int (length refs) = n
     \<and> (\<forall>i<length refs. mk rep (first + int i) = Some (refs ! i))"
proof -
  let ?f = "\<lambda>i. mk rep (first + int i)"
  have "\<forall>i\<in>set [0..<nat n]. ?f i \<noteq> None"
    using assms by auto
  from those_map_Some [of "[0..<nat n]" ?f, OF this]
  have "generateSegmentReferences mk rep first (Num (of_int n))
      = Some (map (\<lambda>i. the (?f i)) [0..<nat n])"
    using assms(1) by (simp add: generateSegmentReferences_def)
  moreover have "int (length (map (\<lambda>i. the (?f i)) [0..<nat n])) = n"
    using assms(1) by simp
  moreover have "\<forall>i<length (map (\<lambda>i. the (?f i)) [0..<nat n]).
      ?f i = Some (map (\<lambda>i. the (?f i)) [0..<nat n] ! i)"
    using assms by auto
  ultimately show ?thesis by blast
qed

lemma fl_seventeen_sevenths: "fl (17 / 7) = Num (5468656690378459 / 2 ^ 51)"
  by (simp add: fl_def fl_pos_def scale.simps round_even_def pow2_def Let_def)

lemma fl_seventeen_by_rounded: "fl (17 / (5468656690378459 / 2 ^ 51)) = Num (7 + 1 / 2 ^ 50)"
  by (simp add: fl_def fl_pos_def scale.simps round_even_def pow2_def Let_def)



lemma create_static:
  assumes "mpd_type mp \<noteq> ''dynamic''" and "segmentTemplate rep = Some tmpl"
  shows "create gen mkLive (DurationSegmentIndexSource mp per rep created) h
     = (case gen rep 1 (js_ceil (js_div (js_num (period_duration per))
                          (js_div (js_num (segmentDuration tmpl)) (Num (timescale tmpl))))) of
          None \<Rightarrow>
            Inr (Rejected (Error (Some ''stream'') ''Failed to generate SegmentReferences''),
                 DurationSegmentIndexSource mp per rep created, h)
        | Some references \<Rightarrow>
            Inr (Resolved (length h),
                 (DurationSegmentIndexSource mp per rep created)\<lparr>segmentIndex := Some (length h)\<rparr>,
                 h @ [references]))"
  using assms
  by (simp add: create_def DurationSegmentIndexSource_def Let_def del: js_div.simps
      split: option.splits)

lemma create_static_exact:
  assumes "mpd_type mp \<noteq> ''dynamic''" and "segmentTemplate rep = Some tmpl"
      and "period_duration per = Some d" and "0 \<le> d"
      and "segmentDuration tmpl = Some sd" and "0 < sd" and "0 < timescale tmpl"
      and "fl (sd / timescale tmpl) = Num (sd / timescale tmpl)"
      and "fl (d / (sd / timescale tmpl)) = Num (d / (sd / timescale tmpl))"
      and "\<forall>k. 1 \<le> k \<and> k \<le> \<lceil>d / (sd / timescale tmpl)\<rceil> \<longrightarrow> mk rep k \<noteq> None"
  shows "\<exists>refs. create (generateSegmentReferences mk) mkLive
                  (DurationSegmentIndexSource mp per rep created) h
           = Inr (Resolved (length h),
                  (DurationSegmentIndexSource mp per rep created)\<lparr>segmentIndex := Some (length h)\<rparr>,
                  h @ [refs])
      \<and> int (length refs) = \<lceil>d / (sd / timescale tmpl)\<rceil>
      \<and> (\<forall>i<length refs. mk rep (1 + int i) = Some (refs ! i))"
proof -
  let ?n = "\<lceil>d / (sd / timescale tmpl)\<rceil>"
  have "0 \<le> d * timescale tmpl / sd"
    using assms(4,6,7) by simp
  then have pos: "0 \<le> ?n"
    by (simp add: zero_le_ceiling)
  have "\<forall>k. 1 \<le> k \<and> k < 1 + ?n \<longrightarrow> mk rep k \<noteq> None"
    using assms(10) by auto
  from generateSegmentReferences_all [where mk = mk and rep = rep and first = 1, OF pos this]
  obtain refs where
    refs: "generateSegmentReferences mk rep 1 (Num (of_int ?n)) = Some refs"
      "int (length refs) = ?n" "\<forall>i<length refs. mk rep (1 + int i) = Some (refs ! i)"
    by blast
  have q: "js_ceil (js_div (js_num (period_duration per))
             (js_div (js_num (segmentDuration tmpl)) (Num (timescale tmpl)))) = Num (of_int ?n)"
    using assms(3,5,6,7,8,9) by (simp add: js_num_def)
  have "create (generateSegmentReferences mk) mkLive (DurationSegmentIndexSource mp per rep created) h
           = Inr (Resolved (length h),
                  (DurationSegmentIndexSource mp per rep created)\<lparr>segmentIndex := Some (length h)\<rparr>,
                  h @ [refs])"
    by (simp only: create_static [OF assms(1,2)] q refs(1) option.case)
  with refs(2,3) show ?thesis by blast
qed

lemma rounding_count:
  "js_ceil (js_div (js_num (Some 17)) (js_div (js_num (Some 17)) (Num 7))) = Num 8"
proof -
  have a: "js_div (js_num (Some 17)) (Num 7) = fl (17 / 7)"
    by (simp add: js_num_def)
  have b: "js_div (js_num (Some 17)) (Num (5468656690378459 / 2 ^ 51))
      = fl (17 / (5468656690378459 / 2 ^ 51))"
    by (simp add: js_num_def)
  have c: "js_ceil (Num (7 + 1 / 2 ^ 50)) = Num 8"
    by (simp add: ceiling_eq_iff)
  show ?thesis
    by (simp only: a fl_seventeen_sevenths b fl_seventeen_by_rounded c)
qed


text \<open>
  C7. The count that \<open>create\<close> passes to the generator is the ceiling of a quotient of
  doubles, each of the two divisions rounded. For a static manifest, a period of 17
  seconds and a template of segment duration 17 at timescale 7, \<open>create\<close> asks for 8
  references from segment number 1 on, whatever the generator is; with the references of
  the template the segment index has 8 of them, the last one starting at the end of the
  period. The ceiling of the exact quotient \<open>17 / (17 / 7)\<close> is 7.
\<close>

theorem create_rounded_count:
  "create gen mkLive rounding_source h
     = (case gen \<lparr>segmentTemplate = Some \<lparr>timescale = 7, segmentDuration = Some 17\<rparr>\<rparr> 1 (Num 8) of
          None \<Rightarrow>
            Inr (Rejected (Error (Some ''stream'') ''Failed to generate SegmentReferences''),
                 rounding_source, h)
        | Some references \<Rightarrow>
            Inr (Resolved (length h), rounding_source\<lparr>segmentIndex := Some (length h)\<rparr>,
                 h @ [references]))
   \<and> (\<exists>refs. create (generateSegmentReferences sevenths) mkLive rounding_source h
          = Inr (Resolved (length h), rounding_source\<lparr>segmentIndex := Some (length h)\<rparr>, h @ [refs])
        \<and> length refs = 8
        \<and> refs ! 7 = seg 17 (136 / 7))
   \<and> \<lceil>(17::real) / (17 / 7)\<rceil> = 7"
proof -
  let ?rep = "\<lparr>segmentTemplate = Some \<lparr>timescale = 7, segmentDuration = Some 17\<rparr>\<rparr>"
  have c: "create g mkLive rounding_source h
     = (case g ?rep 1 (Num 8) of
          None \<Rightarrow>
            Inr (Rejected (Error (Some ''stream'') ''Failed to generate SegmentReferences''),
                 rounding_source, h)
        | Some references \<Rightarrow>
            Inr (Resolved (length h), rounding_source\<lparr>segmentIndex := Some (length h)\<rparr>,
                 h @ [references]))" for g
    unfolding rounding_source_def
    using create_static [where mp = "\<lparr>mpd_type = ''static''\<rparr>"
        and per = "\<lparr>period_start = Some 0, period_duration = Some 17\<rparr>" and rep = ?rep
        and tmpl = "\<lparr>timescale = 7, segmentDuration = Some 17\<rparr>" and gen = g
        and mkLive = mkLive and created = 0 and h = h]
    by (simp add: rounding_count del: js_div.simps)
  have g: "generateSegmentReferences sevenths ?rep 1 (Num 8)
      = Some (map (\<lambda>i. the (sevenths ?rep (1 + int i))) [0..<8])"
    using those_map_Some [of "[0..<8]" "\<lambda>i. sevenths ?rep (1 + int i)"]
    by (simp add: generateSegmentReferences_def sevenths_def)
  have l: "length (map (\<lambda>i. the (sevenths ?rep (1 + int i))) [0..<8]) = 8"
      "map (\<lambda>i. the (sevenths ?rep (1 + int i))) [0..<8] ! 7 = seg 17 (136 / 7)"
    by (simp_all add: sevenths_def)
  have e: "\<lceil>(17::real) / (17 / 7)\<rceil> = 7"
    by simp
  from c [of gen] c [of "generateSegmentReferences sevenths"] g l e
  show ?thesis by simp
qed

lemma create_destroyed: "create gen mkLive (destroy src) h = Inl TypeError"
  by (simp add: create_def destroy_def)






end
